theory Spec2Isabelle
  imports Main "HOL-Library.Word"
begin

unbundle bit_operations_syntax

section \<open>Machine data and return codes\<close>

text \<open>
  The codec is C. Bytes (\<open>uint8_t\<close>, \<open>char\<close>) are \<open>8 word\<close>, \<open>int64_t\<close> is
  \<open>64 word\<close> read through \<open>sint\<close> where the code compares signed values, and
  \<open>uint32_t\<close> is \<open>32 word\<close>; arithmetic on them wraps. Buffer sizes, offsets and
  lengths (\<open>size_t\<close>) are \<open>nat\<close>: they are bounded by the size of a caller buffer, and
  a subtraction on them is made only where the code has just compared the operands, or
  where the text says what happens otherwise. Return codes are C \<open>int\<close>, modelled as
  \<open>int\<close>.

  \<open>ENOSPC\<close> and \<open>EINVAL\<close> come from the system header \<open>errno.h\<close>; the Linux
  values are used. The code returns them negated.
\<close>

type_synonym byte = "8 word"
type_synonym int64 = "64 word"
type_synonym uint32 = "32 word"

definition ENOSPC :: int where
  "ENOSPC = 28"

definition EINVAL :: int where
  "EINVAL = 22"

text \<open>
  Two conditions of the C code are no return code at all: an access outside the object a
  pointer refers to, and the use of a variable that was never assigned. The model makes
  them values, so that no theorem is silently about an unspecified \<open>xs ! i\<close>.
\<close>

datatype fault = OutOfBounds | Uninitialised

text \<open>
  Modelled from the spec: the macros \<open>Z_MIN\<close>, \<open>Z_LIKELY\<close> and \<open>Z_UNLIKELY\<close> of
  \<open>util.h\<close>, which is not among the sources. The specification describes the values
  computed with \<open>Z_MIN\<close> as "clamped to 255", so \<open>Z_MIN\<close> is the minimum of its two
  arguments; \<open>Z_LIKELY\<close> and \<open>Z_UNLIKELY\<close> wrap conditions only and are the identity.
\<close>

definition Z_MIN :: "nat \<Rightarrow> nat \<Rightarrow> nat" where
  "Z_MIN a b = (if a < b then a else b)"

text \<open>Test vectors are written as strings; \<open>bytes_of\<close> gives their bytes.\<close>

definition bytes_of :: "string \<Rightarrow> byte list" where
  "bytes_of s = map (\<lambda>c. of_nat (of_char c)) s"

section \<open>In-memory byte sink (bytes-writer.c)\<close>

text \<open>
  \<open>z_mem_bytes_writer_t\<close>: the caller's buffer and the cursor. \<open>bufsize\<close> is the
  length of the buffer. Each operation returns its code and the writer; a refused write
  leaves the writer as it was.
\<close>

record z_mem_bytes_writer =
  w_buffer :: "byte list"
  w_offset :: nat

definition w_bufsize :: "z_mem_bytes_writer \<Rightarrow> nat" where
  "w_bufsize w = length (w_buffer w)"

definition z_mem_bytes_writer_init_fixed :: "byte list \<Rightarrow> z_mem_bytes_writer" where
  "z_mem_bytes_writer_init_fixed buf = \<lparr>w_buffer = buf, w_offset = 0\<rparr>"

text \<open>The bytes written so far: \<open>buffer[0 .. offset)\<close>.\<close>

definition written :: "z_mem_bytes_writer \<Rightarrow> byte list" where
  "written w = take (w_offset w) (w_buffer w)"

text \<open>
  \<open>__mem_bytes_writer_write_byte\<close>. The C parameter is an \<open>int\<close> stored as
  \<open>v & 0xff\<close>; callers here pass the low eight bits of their (wider) expression.
\<close>

definition write_u8 :: "z_mem_bytes_writer \<Rightarrow> byte \<Rightarrow> int \<times> z_mem_bytes_writer" where
  "write_u8 w v =
     (if w_bufsize w < w_offset w + 1 then (- ENOSPC, w)
      else (0, w\<lparr>w_buffer := (w_buffer w)[w_offset w := v], w_offset := w_offset w + 1\<rparr>))"

text \<open>
  The fall-through ladder of \<open>__mem_bytes_writer_write_uint\<close>: entered at
  \<open>case width\<close>, it stores byte \<open>width - 1\<close> and falls through down to byte 0.
\<close>

fun write_ladder :: "byte list \<Rightarrow> nat \<Rightarrow> int64 \<Rightarrow> nat \<Rightarrow> byte list" where
  "write_ladder buf off v 0 = buf"
| "write_ladder buf off v (Suc k) =
     write_ladder (buf[off + k := ucast (drop_bit (8 * k) v)]) off v k"

text \<open>A width outside 1..8 matches no \<open>case\<close>: nothing is stored, the cursor still moves.\<close>

definition write_uint :: "z_mem_bytes_writer \<Rightarrow> int64 \<Rightarrow> nat \<Rightarrow> int \<times> z_mem_bytes_writer" where
  "write_uint w v width =
     (if w_bufsize w < w_offset w + width then (- ENOSPC, w)
      else (0, w\<lparr>w_buffer := (if 1 \<le> width \<and> width \<le> 8
                                 then write_ladder (w_buffer w) (w_offset w) v width
                                 else w_buffer w),
                  w_offset := w_offset w + width\<rparr>))"

text \<open>\<open>memcpy(dst + off, src, length src)\<close> inside a buffer that has the room.\<close>

definition store_bytes :: "byte list \<Rightarrow> nat \<Rightarrow> byte list \<Rightarrow> byte list" where
  "store_bytes buf off bs = take off buf @ bs @ drop (off + length bs) buf"

definition write_bytes :: "z_mem_bytes_writer \<Rightarrow> byte list \<Rightarrow> int \<times> z_mem_bytes_writer" where
  "write_bytes w bs =
     (if w_bufsize w < w_offset w + length bs then (- ENOSPC, w)
      else (0, w\<lparr>w_buffer := store_bytes (w_buffer w) (w_offset w) bs,
                  w_offset := w_offset w + length bs\<rparr>))"

section \<open>Value encoder (yajbe-encoder.c)\<close>

text \<open>
  \<open>__builtin_clzll\<close> is a compiler builtin: the number of leading zero bits of a
  non-zero 64-bit value. \<open>bit_length\<close> is the position of the highest set bit plus one.
\<close>

fun bit_length :: "nat \<Rightarrow> nat" where
  "bit_length n = (if n = 0 then 0 else Suc (bit_length (n div 2)))"

declare bit_length.simps [simp del]

definition clzll :: "int64 \<Rightarrow> nat" where
  "clzll v = 64 - bit_length (unat v)"

definition int_bytes_width :: "int64 \<Rightarrow> nat" where
  "int_bytes_width v = (if v \<noteq> 0 then drop_bit 3 ((64 - clzll v) + 7) else 1)"

text \<open>
  The encoder struct holds two pointers, to the sink and to the field encoder; the
  functions below take the sink itself.
\<close>

definition yajbe_encode_null :: "z_mem_bytes_writer \<Rightarrow> int \<times> z_mem_bytes_writer" where
  "yajbe_encode_null w = write_u8 w 0"

definition yajbe_encode_true :: "z_mem_bytes_writer \<Rightarrow> int \<times> z_mem_bytes_writer" where
  "yajbe_encode_true w = write_u8 w 3"

definition yajbe_encode_false :: "z_mem_bytes_writer \<Rightarrow> int \<times> z_mem_bytes_writer" where
  "yajbe_encode_false w = write_u8 w 2"

definition yajbe_encode_bool :: "z_mem_bytes_writer \<Rightarrow> int \<Rightarrow> int \<times> z_mem_bytes_writer" where
  "yajbe_encode_bool w v = write_u8 w (if v \<noteq> 0 then 3 else 2)"

text \<open>
  \<open>__yajbe_encode_length\<close>: \<open>head | length\<close> and \<open>head | (inline_max + bytes)\<close> are
  computed at full width and cut to a byte by the sink.
\<close>

definition yajbe_encode_length ::
  "z_mem_bytes_writer \<Rightarrow> nat \<Rightarrow> nat \<Rightarrow> nat \<Rightarrow> int \<times> z_mem_bytes_writer" where
  "yajbe_encode_length w head inline_max len =
     (if len \<le> inline_max then write_u8 w (of_nat (head OR len))
      else
        let delta_length = len - inline_max;
            bytes = int_bytes_width (of_nat delta_length);
            (r, w1) = write_u8 w (of_nat (head OR (inline_max + bytes)))
        in if r < 0 then (r, w1)
           else write_uint w1 (of_nat delta_length) bytes)"

definition yajbe_encode_array_fixed_length ::
  "z_mem_bytes_writer \<Rightarrow> nat \<Rightarrow> int \<times> z_mem_bytes_writer" where
  "yajbe_encode_array_fixed_length w len = yajbe_encode_length w 0x20 10 len"

definition yajbe_encode_array_start :: "z_mem_bytes_writer \<Rightarrow> int \<times> z_mem_bytes_writer" where
  "yajbe_encode_array_start w = write_u8 w 0x2f"

definition yajbe_encode_array_end :: "z_mem_bytes_writer \<Rightarrow> int \<times> z_mem_bytes_writer" where
  "yajbe_encode_array_end w = write_u8 w 1"

definition yajbe_encode_object_fixed_length ::
  "z_mem_bytes_writer \<Rightarrow> nat \<Rightarrow> int \<times> z_mem_bytes_writer" where
  "yajbe_encode_object_fixed_length w len = yajbe_encode_length w 0x30 10 len"

definition yajbe_encode_object_start :: "z_mem_bytes_writer \<Rightarrow> int \<times> z_mem_bytes_writer" where
  "yajbe_encode_object_start w = write_u8 w 0x3f"

definition yajbe_encode_object_end :: "z_mem_bytes_writer \<Rightarrow> int \<times> z_mem_bytes_writer" where
  "yajbe_encode_object_end w = write_u8 w 1"

text \<open>\<open>value <= 24\<close> is a signed comparison; \<open>value - 1\<close> and \<open>value -= 25\<close> wrap.\<close>

definition yajbe_encode_positive_int ::
  "z_mem_bytes_writer \<Rightarrow> int64 \<Rightarrow> int \<times> z_mem_bytes_writer" where
  "yajbe_encode_positive_int w v =
     (if sint v \<le> 24 then write_u8 w (ucast (0x40 OR (v - 1)))
      else
        let v1 = v - 25;
            bytes = int_bytes_width v1;
            (r, w1) = write_u8 w (of_nat (0x40 OR (23 + bytes)))
        in if r < 0 then (r, w1) else write_uint w1 v1 bytes)"

text \<open>
  \<open>value = -value\<close> wraps for \<open>INT64_MIN\<close>, which is its own negation; the comparison
  \<open>value <= 23\<close> that follows is signed.
\<close>

definition yajbe_encode_negative_int ::
  "z_mem_bytes_writer \<Rightarrow> int64 \<Rightarrow> int \<times> z_mem_bytes_writer" where
  "yajbe_encode_negative_int w v0 =
     (let v = - v0 in
      if sint v \<le> 23 then write_u8 w (ucast (0x60 OR v))
      else
        let v1 = v - 24;
            bytes = int_bytes_width v1;
            (r, w1) = write_u8 w (of_nat (0x60 OR (23 + bytes)))
        in if r < 0 then (r, w1) else write_uint w1 v1 bytes)"

definition yajbe_encode_int :: "z_mem_bytes_writer \<Rightarrow> int64 \<Rightarrow> int \<times> z_mem_bytes_writer" where
  "yajbe_encode_int w v =
     (if 0 < sint v then yajbe_encode_positive_int w v
      else yajbe_encode_negative_int w v)"

text \<open>
  A \<open>float\<close> or \<open>double\<close> is only ever copied (\<open>memcpy\<close> of its object
  representation), so it is modelled by its IEEE-754 bit pattern, a \<open>32 word\<close> or a
  \<open>64 word\<close>. On a little-endian host (the hosts the tests run on) the object
  representation is the bit pattern, lowest byte first.
\<close>

type_synonym float32 = "32 word"
type_synonym float64 = "64 word"

definition float_repr :: "float32 \<Rightarrow> byte list" where
  "float_repr bits = map (\<lambda>k. ucast (drop_bit (8 * k) bits)) [0..<4]"

definition double_repr :: "float64 \<Rightarrow> byte list" where
  "double_repr bits = map (\<lambda>k. ucast (drop_bit (8 * k) bits)) [0..<8]"

definition yajbe_encode_float :: "z_mem_bytes_writer \<Rightarrow> float32 \<Rightarrow> int \<times> z_mem_bytes_writer" where
  "yajbe_encode_float w v =
     (let (r, w1) = write_u8 w 5
      in if r < 0 then (r, w1) else write_bytes w1 (float_repr v))"

definition yajbe_encode_double :: "z_mem_bytes_writer \<Rightarrow> float64 \<Rightarrow> int \<times> z_mem_bytes_writer" where
  "yajbe_encode_double w v =
     (let (r, w1) = write_u8 w 6
      in if r < 0 then (r, w1) else write_bytes w1 (double_repr v))"

definition yajbe_encode_string :: "z_mem_bytes_writer \<Rightarrow> byte list \<Rightarrow> int \<times> z_mem_bytes_writer" where
  "yajbe_encode_string w utf8 =
     (let (r, w1) = yajbe_encode_length w 0xc0 59 (length utf8)
      in if r < 0 then (r, w1) else write_bytes w1 utf8)"

definition yajbe_encode_bytes :: "z_mem_bytes_writer \<Rightarrow> byte list \<Rightarrow> int \<times> z_mem_bytes_writer" where
  "yajbe_encode_bytes w buf =
     (let (r, w1) = yajbe_encode_length w 0x80 59 (length buf)
      in if r < 0 then (r, w1) else write_bytes w1 buf)"

section \<open>In-memory byte source (bytes-reader.c)\<close>

text \<open>
  \<open>z_mem_bytes_reader_t\<close>. A read returns \<open>Inl\<close> of the (negative) code when it is
  refused, and the C out-parameter is then not assigned; otherwise \<open>Inr\<close> of the value
  read and the advanced reader (the code is 0).
\<close>

record z_mem_bytes_reader =
  r_buffer :: "byte list"
  r_offset :: nat

definition r_bufsize :: "z_mem_bytes_reader \<Rightarrow> nat" where
  "r_bufsize r = length (r_buffer r)"

definition z_mem_bytes_reader_init :: "byte list \<Rightarrow> z_mem_bytes_reader" where
  "z_mem_bytes_reader_init buf = \<lparr>r_buffer = buf, r_offset = 0\<rparr>"

definition read_u8 :: "z_mem_bytes_reader \<Rightarrow> int + (byte \<times> z_mem_bytes_reader)" where
  "read_u8 r =
     (if r_bufsize r < r_offset r + 1 then Inl (- ENOSPC)
      else Inr (r_buffer r ! r_offset r, r\<lparr>r_offset := r_offset r + 1\<rparr>))"

text \<open>
  The ladder of \<open>__mem_bytes_reader_read_uint\<close>: \<open>result |= (buf[off + k] & 0xFF) << 8k\<close>
  from \<open>k = width - 1\<close> down to 0.
\<close>

fun read_ladder :: "byte list \<Rightarrow> nat \<Rightarrow> nat \<Rightarrow> int64" where
  "read_ladder buf off 0 = 0"
| "read_ladder buf off (Suc k) =
     push_bit (8 * k) (ucast (buf ! (off + k))) OR read_ladder buf off k"

definition read_uint :: "z_mem_bytes_reader \<Rightarrow> nat \<Rightarrow> int + (int64 \<times> z_mem_bytes_reader)" where
  "read_uint r width =
     (if r_bufsize r < r_offset r + width then Inl (- ENOSPC)
      else Inr (if 1 \<le> width \<and> width \<le> 8 then read_ladder (r_buffer r) (r_offset r) width else 0,
                r\<lparr>r_offset := r_offset r + width\<rparr>))"

definition read_bytes :: "z_mem_bytes_reader \<Rightarrow> nat \<Rightarrow> int + (byte list \<times> z_mem_bytes_reader)" where
  "read_bytes r len =
     (if r_bufsize r < r_offset r + len then Inl (- ENOSPC)
      else Inr (take len (drop (r_offset r) (r_buffer r)), r\<lparr>r_offset := r_offset r + len\<rparr>))"

section \<open>Value decoder (yajbe-decoder.c)\<close>

text \<open>The item types of \<open>yajbe_item_type_t\<close>, with the values the enum gives them.\<close>

definition YAJBE_NULL :: int where "YAJBE_NULL = 0"
definition YAJBE_FALSE :: int where "YAJBE_FALSE = 1"
definition YAJBE_TRUE :: int where "YAJBE_TRUE = 2"
definition YAJBE_INT_SMALL :: int where "YAJBE_INT_SMALL = 3"
definition YAJBE_INT_POSITIVE :: int where "YAJBE_INT_POSITIVE = 4"
definition YAJBE_INT_NEGATIVE :: int where "YAJBE_INT_NEGATIVE = 5"
definition YAJBE_SMALL_STRING :: int where "YAJBE_SMALL_STRING = 6"
definition YAJBE_STRING :: int where "YAJBE_STRING = 7"
definition YAJBE_ENUM_CONFIG :: int where "YAJBE_ENUM_CONFIG = 8"
definition YAJBE_ENUM_STRING :: int where "YAJBE_ENUM_STRING = 9"
definition YAJBE_SMALL_BYTES :: int where "YAJBE_SMALL_BYTES = 10"
definition YAJBE_BYTES :: int where "YAJBE_BYTES = 11"
definition YAJBE_FLOAT_VLE :: int where "YAJBE_FLOAT_VLE = 12"
definition YAJBE_FLOAT_32 :: int where "YAJBE_FLOAT_32 = 13"
definition YAJBE_FLOAT_64 :: int where "YAJBE_FLOAT_64 = 14"
definition YAJBE_BIG_DECIMAL :: int where "YAJBE_BIG_DECIMAL = 15"
definition YAJBE_ARRAY :: int where "YAJBE_ARRAY = 16"
definition YAJBE_ARRAY_EOF :: int where "YAJBE_ARRAY_EOF = 17"
definition YAJBE_OBJECT :: int where "YAJBE_OBJECT = 18"
definition YAJBE_OBJECT_EOF :: int where "YAJBE_OBJECT_EOF = 19"
definition YAJBE_EOF :: int where "YAJBE_EOF = 20"

text \<open>The table \<open>TOKEN_MAP\<close>, entry for entry (256 entries, indexed by the head byte).\<close>

definition TOKEN_MAP :: "int list" where
  "TOKEN_MAP = [
  0, 20, 1, 2,
  12, 13, 14, 15,
  8, 9, 9,
  -1, -1, -1, -1, -1, -1, -1, -1, -1, -1, -1, -1, -1, -1, -1, -1, -1, -1, -1, -1, -1,
  16, 16, 16, 16, 16, 16, 16, 16, 16, 16, 16, 16, 16, 16, 16, 17,
  18, 18, 18, 18, 18, 18, 18, 18, 18, 18, 18, 18, 18, 18, 18, 19,
  3, 3, 3, 3, 3, 3, 3, 3, 3, 3, 3, 3, 3, 3, 3, 3, 3, 3, 3, 3, 3, 3, 3, 3, 4, 4, 4, 4, 4, 4, 4, 4,
  3, 3, 3, 3, 3, 3, 3, 3, 3, 3, 3, 3, 3, 3, 3, 3, 3, 3, 3, 3, 3, 3, 3, 3, 5, 5, 5, 5, 5, 5, 5, 5,
  10, 10, 10, 10, 10, 10, 10, 10, 10, 10, 10, 10, 10, 10, 10, 10, 10, 10, 10, 10, 10, 10, 10, 10, 10, 10, 10, 10, 10, 10, 10, 10, 10, 10, 10, 10, 10, 10, 10, 10, 10, 10, 10, 10, 10, 10, 10, 10, 10, 10, 10, 10, 10, 10, 10, 10, 10, 10, 10, 10, 11, 11, 11, 11,
  6, 6, 6, 6, 6, 6, 6, 6, 6, 6, 6, 6, 6, 6, 6, 6, 6, 6, 6, 6, 6, 6, 6, 6, 6, 6, 6, 6, 6, 6, 6, 6, 6, 6, 6, 6, 6, 6, 6, 6, 6, 6, 6, 6, 6, 6, 6, 6, 6, 6, 6, 6, 6, 6, 6, 6, 6, 6, 6, 6, 7, 7, 7, 7
  ]"

text \<open>
  A value that the C code leaves indeterminate: \<open>__read_item_count\<close> and
  \<open>__read_item_length\<close> store \<open>10 + value\<close> and \<open>59 + value\<close> also when the read that
  should have assigned the local \<open>value\<close> was refused.
\<close>

datatype 'a cval = Val 'a | Indeterminate

text \<open>
  \<open>yajbe_decoder_t\<close>. The struct points to the source and to the field decoder; the
  record owns the source, and object keys are decoded by \<open>yajbe_field_decode\<close> below on
  the field decoder and the source (\<open>yajbe_decode_object_field\<close> only forwards the two).
\<close>

record yajbe_decoder =
  d_reader :: z_mem_bytes_reader
  item_head :: int
  item_type :: int
  item_length :: "int64 cval"

definition yajbe_decoder_init :: "z_mem_bytes_reader \<Rightarrow> yajbe_decoder" where
  "yajbe_decoder_init reader =
     \<lparr>d_reader = reader, item_head = - 1, item_type = - 1, item_length = Val 0\<rparr>"

definition read_item_count :: "yajbe_decoder \<Rightarrow> int \<times> yajbe_decoder" where
  "read_item_count d =
     (let w = item_head d AND 0xf in
      if w \<le> 10 then (0, d\<lparr>item_length := Val (word_of_int w)\<rparr>)
      else case read_uint (d_reader d) (nat (w - 10)) of
             Inl r \<Rightarrow> (r, d\<lparr>item_length := Indeterminate\<rparr>)
           | Inr (v, rd) \<Rightarrow> (0, d\<lparr>d_reader := rd, item_length := Val (10 + v)\<rparr>))"

definition read_item_length :: "yajbe_decoder \<Rightarrow> int \<times> yajbe_decoder" where
  "read_item_length d =
     (case read_uint (d_reader d) (nat ((item_head d AND 0x3f) - 59)) of
        Inl r \<Rightarrow> (r, d\<lparr>item_length := Indeterminate\<rparr>)
      | Inr (v, rd) \<Rightarrow> (0, d\<lparr>d_reader := rd, item_length := Val (59 + v)\<rparr>))"

text \<open>
  \<open>yajbe_decode_next\<close> returns the item type, or the negative code of a refused read.
  \<open>1L << 63\<close> is the \<open>int64_t\<close> with only the top bit set. Item types with no \<open>case\<close>
  in the \<open>switch\<close> leave \<open>item_length\<close> as it was.
\<close>

definition yajbe_decode_next :: "yajbe_decoder \<Rightarrow> int \<times> yajbe_decoder" where
  "yajbe_decode_next d =
     (case read_u8 (d_reader d) of
        Inl r \<Rightarrow> (r, d)
      | Inr (b, rd) \<Rightarrow>
          let d1 = d\<lparr>d_reader := rd, item_head := uint b, item_type := TOKEN_MAP ! unat b\<rparr>;
              t = item_type d1
          in if t = YAJBE_ARRAY \<or> t = YAJBE_OBJECT then
               (let (r, d2) = read_item_count d1 in if r < 0 then (r, d2) else (t, d2))
             else if t = YAJBE_ARRAY_EOF \<or> t = YAJBE_OBJECT_EOF then
               (t, d1\<lparr>item_length := Val (push_bit 63 1)\<rparr>)
             else if t = YAJBE_SMALL_BYTES \<or> t = YAJBE_SMALL_STRING then
               (t, d1\<lparr>item_length := Val (word_of_int (item_head d1 AND 0x3f))\<rparr>)
             else if t = YAJBE_BYTES \<or> t = YAJBE_STRING then
               (let (r, d2) = read_item_length d1 in if r < 0 then (r, d2) else (t, d2))
             else if t = YAJBE_INT_SMALL then
               (t, d1\<lparr>item_length := Val 0\<rparr>)
             else if t = YAJBE_INT_POSITIVE \<or> t = YAJBE_INT_NEGATIVE then
               (t, d1\<lparr>item_length := Val (word_of_int ((item_head d1 AND 0x1f) - 23))\<rparr>)
             else if t = YAJBE_FLOAT_32 then
               (t, d1\<lparr>item_length := Val 4\<rparr>)
             else if t = YAJBE_FLOAT_64 then
               (t, d1\<lparr>item_length := Val 8\<rparr>)
             else (t, d1))"

text \<open>
  A typed read returns its code, the value it assigned through the out-parameter
  (\<open>None\<close> when it assigned none, or assigned one computed from a refused read), and the
  decoder. It is \<open>Inl\<close> of a fault when it would use an indeterminate \<open>item_length\<close>.
  \<open>item_length\<close> is passed to the source as the \<open>int\<close> width; \<open>yajbe_decode_next\<close>
  sets it to 1..8 for the two wide integer types.
\<close>

type_synonym 'v typed_read = "fault + (int \<times> 'v option \<times> yajbe_decoder)"

definition yajbe_decode_null :: "yajbe_decoder \<Rightarrow> int" where
  "yajbe_decode_null d = (if item_type d \<noteq> YAJBE_NULL then 1 else 0)"

definition yajbe_decode_next_null :: "yajbe_decoder \<Rightarrow> int \<times> yajbe_decoder" where
  "yajbe_decode_next_null d =
     (let (r, d1) = yajbe_decode_next d
      in if r = YAJBE_NULL then (0, d1) else (if r < 0 then r else - EINVAL, d1))"

definition yajbe_decode_bool :: "yajbe_decoder \<Rightarrow> int typed_read" where
  "yajbe_decode_bool d =
     (if item_type d = YAJBE_TRUE then Inr (0, Some 1, d)
      else if item_type d = YAJBE_FALSE then Inr (0, Some 0, d)
      else Inr (- EINVAL, None, d))"

definition yajbe_decode_next_bool :: "yajbe_decoder \<Rightarrow> int typed_read" where
  "yajbe_decode_next_bool d =
     (let (r, d1) = yajbe_decode_next d
      in if r < 0 then Inr (0, None, d1) else yajbe_decode_bool d1)"

definition decode_small_int :: "yajbe_decoder \<Rightarrow> int64 typed_read" where
  "decode_small_int d =
     (let head = item_head d;
          signed_value = (head AND 0x60 = 0x60);
          w = head AND 0x1f
      in Inr (0, Some (word_of_int (if signed_value then - w else 1 + w)), d))"

definition decode_int_positive :: "yajbe_decoder \<Rightarrow> int64 typed_read" where
  "decode_int_positive d =
     (case item_length d of
        Indeterminate \<Rightarrow> Inl Uninitialised
      | Val l \<Rightarrow>
          (case read_uint (d_reader d) (unat l) of
             Inl r \<Rightarrow> Inr (r, None, d)
           | Inr (v, rd) \<Rightarrow> Inr (0, Some (v + 25), d\<lparr>d_reader := rd\<rparr>)))"

definition decode_int_negative :: "yajbe_decoder \<Rightarrow> int64 typed_read" where
  "decode_int_negative d =
     (case item_length d of
        Indeterminate \<Rightarrow> Inl Uninitialised
      | Val l \<Rightarrow>
          (case read_uint (d_reader d) (unat l) of
             Inl r \<Rightarrow> Inr (r, None, d)
           | Inr (v, rd) \<Rightarrow> Inr (0, Some (- (v + 24)), d\<lparr>d_reader := rd\<rparr>)))"

definition yajbe_decode_int :: "yajbe_decoder \<Rightarrow> int64 typed_read" where
  "yajbe_decode_int d =
     (if item_type d = YAJBE_INT_SMALL then decode_small_int d
      else if item_type d = YAJBE_INT_POSITIVE then decode_int_positive d
      else if item_type d = YAJBE_INT_NEGATIVE then decode_int_negative d
      else Inr (- EINVAL, None, d))"

definition yajbe_decode_next_int :: "yajbe_decoder \<Rightarrow> int64 typed_read" where
  "yajbe_decode_next_int d =
     (let (r, d1) = yajbe_decode_next d
      in if r < 0 then Inr (0, None, d1) else yajbe_decode_int d1)"

text \<open>
  \<open>memcpy (value, &iValue, 4)\<close> copies the four lowest-addressed bytes of the
  \<open>int64_t\<close>, on a little-endian host its low 32 bits; with 8 it copies all of it.
\<close>

definition yajbe_decode_float :: "yajbe_decoder \<Rightarrow> float32 typed_read" where
  "yajbe_decode_float d =
     (if item_type d \<noteq> YAJBE_FLOAT_32 then Inr (- EINVAL, None, d)
      else case read_uint (d_reader d) 4 of
             Inl r \<Rightarrow> Inr (r, None, d)
           | Inr (v, rd) \<Rightarrow> Inr (0, Some (ucast v), d\<lparr>d_reader := rd\<rparr>))"

definition yajbe_decode_next_float :: "yajbe_decoder \<Rightarrow> float32 typed_read" where
  "yajbe_decode_next_float d =
     (let (r, d1) = yajbe_decode_next d
      in if r < 0 then Inr (0, None, d1) else yajbe_decode_float d1)"

definition yajbe_decode_double :: "yajbe_decoder \<Rightarrow> float64 typed_read" where
  "yajbe_decode_double d =
     (if item_type d \<noteq> YAJBE_FLOAT_64 then Inr (- EINVAL, None, d)
      else case read_uint (d_reader d) 8 of
             Inl r \<Rightarrow> Inr (r, None, d)
           | Inr (v, rd) \<Rightarrow> Inr (0, Some v, d\<lparr>d_reader := rd\<rparr>))"

definition yajbe_decode_next_double :: "yajbe_decoder \<Rightarrow> float64 typed_read" where
  "yajbe_decode_next_double d =
     (let (r, d1) = yajbe_decode_next d
      in if r < 0 then Inr (0, None, d1) else yajbe_decode_double d1)"

text \<open>
  The test \<open>(type mismatch) || buflen < self->item_length\<close> reads \<open>item_length\<close> only
  when the type matches; it compares \<open>size_t\<close> with \<open>int64_t\<close>, that is unsigned.
\<close>

definition yajbe_decode_bytes :: "yajbe_decoder \<Rightarrow> nat \<Rightarrow> (byte list) typed_read" where
  "yajbe_decode_bytes d buflen =
     (if item_type d \<noteq> YAJBE_SMALL_BYTES \<and> item_type d \<noteq> YAJBE_BYTES then Inr (- EINVAL, None, d)
      else case item_length d of
        Indeterminate \<Rightarrow> Inl Uninitialised
      | Val l \<Rightarrow>
          if buflen < unat l then Inr (- EINVAL, None, d)
          else case read_bytes (d_reader d) (unat l) of
                 Inl r \<Rightarrow> Inr (r, None, d)
               | Inr (bs, rd) \<Rightarrow> Inr (0, Some bs, d\<lparr>d_reader := rd\<rparr>))"

definition yajbe_decode_next_bytes :: "yajbe_decoder \<Rightarrow> nat \<Rightarrow> (byte list) typed_read" where
  "yajbe_decode_next_bytes d buflen =
     (let (r, d1) = yajbe_decode_next d
      in if r < 0 then Inr (0, None, d1) else yajbe_decode_bytes d1 buflen)"

definition yajbe_decode_string :: "yajbe_decoder \<Rightarrow> nat \<Rightarrow> (byte list) typed_read" where
  "yajbe_decode_string d buflen =
     (if item_type d \<noteq> YAJBE_SMALL_STRING \<and> item_type d \<noteq> YAJBE_STRING then Inr (- EINVAL, None, d)
      else case item_length d of
        Indeterminate \<Rightarrow> Inl Uninitialised
      | Val l \<Rightarrow>
          if buflen < unat l then Inr (- EINVAL, None, d)
          else case read_bytes (d_reader d) (unat l) of
                 Inl r \<Rightarrow> Inr (r, None, d)
               | Inr (bs, rd) \<Rightarrow> Inr (0, Some bs, d\<lparr>d_reader := rd\<rparr>))"

definition yajbe_decode_next_string :: "yajbe_decoder \<Rightarrow> nat \<Rightarrow> (byte list) typed_read" where
  "yajbe_decode_next_string d buflen =
     (let (r, d1) = yajbe_decode_next d
      in if r < 0 then Inr (0, None, d1) else yajbe_decode_string d1 buflen)"

text \<open>
  What the tests do: encode into a fresh zeroed buffer of 32 bytes, look at the bytes
  written, and decode from a source over exactly those bytes.
\<close>

definition fresh_writer :: "nat \<Rightarrow> z_mem_bytes_writer" where
  "fresh_writer n = z_mem_bytes_writer_init_fixed (replicate n 0)"

definition encoded_int :: "int64 \<Rightarrow> int \<times> byte list" where
  "encoded_int v = (let (r, w) = yajbe_encode_int (fresh_writer 32) v in (r, written w))"

definition decoder_on :: "byte list \<Rightarrow> yajbe_decoder" where
  "decoder_on bs = yajbe_decoder_init (z_mem_bytes_reader_init bs)"

definition decoded_int :: "byte list \<Rightarrow> (int \<times> int64 option) option" where
  "decoded_int bs =
     (case yajbe_decode_next_int (decoder_on bs) of
        Inl f \<Rightarrow> None
      | Inr (r, v, d) \<Rightarrow> Some (r, v))"

text \<open>
  The round trip of one integer through \<open>yajbe_encode_int\<close> and
  \<open>yajbe_decode_next_int\<close>, and the \<open>k\<close> low bytes of an \<open>int64_t\<close>, lowest first.
\<close>

definition int_round_trips :: "int64 \<Rightarrow> bool" where
  "int_round_trips v \<longleftrightarrow>
     fst (encoded_int v) = 0 \<and> decoded_int (snd (encoded_int v)) = Some (0, Some v)"


definition le_list :: "int64 \<Rightarrow> nat \<Rightarrow> byte list" where
  "le_list v k = map (\<lambda>i. ucast (drop_bit (8 * i) v)) [0..<k]"



section \<open>Field-name encoder (fields-encoder.c)\<close>

text \<open>
  A key is the byte sequence \<open>key[0 .. keylen)\<close>. The encoder borrows key pointers
  (\<open>entry->name\<close>, \<open>last_key\<close>) and never copies; the model stores the bytes, which is
  what the pointers give as long as the caller keeps the keys alive and unchanged. A table
  slot is empty when its \<open>name\<close> is \<open>NULL\<close> (\<open>None\<close>); \<open>last_key\<close> is \<open>NULL\<close> until
  the first key. \<open>entries_size\<close> is the length of the entry array.
\<close>

record yajbe_field_encoder_entry =
  e_name :: "byte list"
  e_length :: nat
  e_hash :: uint32
  e_index :: int

record yajbe_field_encoder =
  enc_entries :: "yajbe_field_encoder_entry option list"
  enc_entries_count :: nat
  enc_last_key :: "byte list option"

definition enc_entries_size :: "yajbe_field_encoder \<Rightarrow> nat" where
  "enc_entries_size self = length (enc_entries self)"

definition field_name_entry_set ::
  "int \<Rightarrow> uint32 \<Rightarrow> byte list \<Rightarrow> yajbe_field_encoder_entry" where
  "field_name_entry_set idx h key = \<lparr>e_name = key, e_length = length key, e_hash = h, e_index = idx\<rparr>"

text \<open>\<open>memcmp(self->name, key, keylen)\<close> compares the first \<open>keylen\<close> bytes.\<close>

definition field_name_entry_equals ::
  "yajbe_field_encoder_entry \<Rightarrow> uint32 \<Rightarrow> byte list \<Rightarrow> bool" where
  "field_name_entry_equals e h key =
     (e_hash e = h \<and> e_length e = length key \<and> take (length key) (e_name e) = key)"

text \<open>
  \<open>hash ^= key[i]\<close> converts a \<open>char\<close> to \<open>uint32_t\<close>: with a signed \<open>char\<close> the byte is
  sign-extended (\<open>scast\<close>); for ASCII keys signedness makes no difference.
\<close>

definition hash_fnv_1a :: "byte list \<Rightarrow> uint32" where
  "hash_fnv_1a key = fold (\<lambda>c h. (h XOR scast c) * 0x811C9DC5) key 0x811c9dc5"

definition yajbe_field_encoder_init_fixed :: "nat \<Rightarrow> yajbe_field_encoder" where
  "yajbe_field_encoder_init_fixed entries_size =
     \<lparr>enc_entries = replicate entries_size None, enc_entries_count = 0, enc_last_key = None\<rparr>"

text \<open>
  The probe loop of \<open>yajbe_field_encoder_hadd\<close>, \<open>while (entries[hindex].name != NULL)\<close>,
  has no bound: it ends at an empty slot or at an equal entry, and runs forever when the
  slots it visits hold neither (\<open>None\<close>). It yields the slot it stopped at, with the index
  of the equal entry if that is why it stopped. An \<open>hindex\<close> outside the array, possible
  only when the array is empty, is a fault.
\<close>

partial_function (option) hadd_probe ::
  "yajbe_field_encoder_entry option list \<Rightarrow> uint32 \<Rightarrow> byte list \<Rightarrow> nat \<Rightarrow> nat
     \<Rightarrow> (fault + nat \<times> int option) option" where
  "hadd_probe es khash key msk hindex =
     (if hindex < length es then
        (case es ! hindex of
           None \<Rightarrow> Some (Inr (hindex, None))
         | Some entry \<Rightarrow>
             if field_name_entry_equals entry khash key then Some (Inr (hindex, Some (e_index entry)))
             else hadd_probe es khash key msk ((hindex + 1) AND msk))
      else Some (Inl OutOfBounds))"

declare hadd_probe.simps [code]

definition yajbe_field_encoder_hadd ::
  "yajbe_field_encoder \<Rightarrow> uint32 \<Rightarrow> byte list \<Rightarrow> (fault + int \<times> yajbe_field_encoder) option" where
  "yajbe_field_encoder_hadd self khash key =
     (if enc_entries_count self = enc_entries_size self then Some (Inr (- ENOSPC, self))
      else
        let msk = enc_entries_size self - 1;
            hindex = unat khash AND msk
        in case hadd_probe (enc_entries self) khash key msk hindex of
             None \<Rightarrow> None
           | Some (Inl f) \<Rightarrow> Some (Inl f)
           | Some (Inr (h, Some idx)) \<Rightarrow> Some (Inr (idx, self))
           | Some (Inr (h, None)) \<Rightarrow>
               let index = enc_entries_count self
               in Some (Inr (int index,
                     self\<lparr>enc_entries := (enc_entries self)[h := Some (field_name_entry_set (int index) khash key)],
                          enc_entries_count := index + 1\<rparr>)))"

text \<open>
  The loop of \<open>yajbe_field_encoder_hget\<close> runs at most \<open>entries_size\<close> times; \<open>n\<close>
  counts the iterations left. \<open>hindex\<close> is at most \<open>mask = entries_size - 1\<close> (\<open>msk\<close>), so the
  slot read is inside the array whenever the loop runs at all.
\<close>

fun hget_loop ::
  "yajbe_field_encoder_entry option list \<Rightarrow> uint32 \<Rightarrow> byte list \<Rightarrow> nat \<Rightarrow> nat \<Rightarrow> nat \<Rightarrow> int" where
  "hget_loop es khash key msk hindex 0 = - 1"
| "hget_loop es khash key msk hindex (Suc n) =
     (case es ! hindex of
        None \<Rightarrow> - 1
      | Some entry \<Rightarrow>
          if field_name_entry_equals entry khash key then e_index entry
          else hget_loop es khash key msk ((hindex + 1) AND msk) n)"

definition yajbe_field_encoder_hget :: "yajbe_field_encoder \<Rightarrow> uint32 \<Rightarrow> byte list \<Rightarrow> int" where
  "yajbe_field_encoder_hget self khash key =
     (let msk = enc_entries_size self - 1;
          hindex = unat khash AND msk
      in hget_loop (enc_entries self) khash key msk hindex (enc_entries_size self))"

definition yajbe_field_encoder_add ::
  "yajbe_field_encoder \<Rightarrow> byte list \<Rightarrow> (fault + int \<times> yajbe_field_encoder) option" where
  "yajbe_field_encoder_add self key = yajbe_field_encoder_hadd self (hash_fnv_1a key) key"

definition yajbe_field_encoder_get :: "yajbe_field_encoder \<Rightarrow> byte list \<Rightarrow> int" where
  "yajbe_field_encoder_get self key = yajbe_field_encoder_hget self (hash_fnv_1a key) key"

text \<open>\<open>__prefix\<close>: the loop \<open>for (i = 0; i < len; ++i)\<close> from its counter \<open>i\<close> on.\<close>

function prefix_loop :: "byte list \<Rightarrow> byte list \<Rightarrow> nat \<Rightarrow> nat \<Rightarrow> nat" where
  "prefix_loop last_key key len i =
     (if i < len then
        (if last_key ! i \<noteq> key ! i then i else prefix_loop last_key key len (i + 1))
      else len)"
  by pat_completeness auto
termination
  by (relation "measure (\<lambda>(last_key, key, len, i). len - i)") auto

declare prefix_loop.simps [simp del]

definition field_prefix :: "byte list \<Rightarrow> byte list \<Rightarrow> nat" where
  "field_prefix last_key key = prefix_loop last_key key (Z_MIN (length last_key) (length key)) 0"

text \<open>
  \<open>__suffix (self, key, prefix, keylen)\<close>: the loop \<open>for (i = 1; i < len; ++i)\<close>. The
  parameter \<open>prefix\<close> is not used by the body, and \<open>keylen\<close> is what the caller passes.
\<close>

function suffix_loop :: "byte list \<Rightarrow> byte list \<Rightarrow> nat \<Rightarrow> nat \<Rightarrow> nat \<Rightarrow> nat" where
  "suffix_loop last_key key keylen len i =
     (if i < len then
        (if last_key ! (length last_key - i) \<noteq> key ! (keylen - i) then i - 1
         else suffix_loop last_key key keylen len (i + 1))
      else len)"
  by pat_completeness auto
termination
  by (relation "measure (\<lambda>(last_key, key, keylen, len, i). len - i)") auto

declare suffix_loop.simps [simp del]

definition field_suffix :: "byte list \<Rightarrow> byte list \<Rightarrow> nat \<Rightarrow> nat \<Rightarrow> nat" where
  "field_suffix last_key key prefix keylen =
     suffix_loop last_key key keylen (Z_MIN (length last_key) keylen) 1"

text \<open>
  \<open>__write_length\<close> drops the codes of the sink; it returns 0, or \<open>- 1\<close> with nothing
  written for a length above 65819.
\<close>

definition write_length :: "z_mem_bytes_writer \<Rightarrow> nat \<Rightarrow> nat \<Rightarrow> int \<times> z_mem_bytes_writer" where
  "write_length w head len =
     (if len < 30 then (0, snd (write_u8 w (of_nat (head OR len))))
      else if len \<le> 284 then
        (let w1 = snd (write_u8 w (of_nat (head OR 0x1e)))
         in (0, snd (write_u8 w1 (of_nat ((len - 29) AND 0xff)))))
      else if len \<le> 65819 then
        (let w1 = snd (write_u8 w (of_nat (head OR 0x1f)));
             w2 = snd (write_u8 w1 (of_nat ((len - 284) div 256)))
         in (0, snd (write_u8 w2 (of_nat ((len - 284) AND 255)))))
      else (- 1, w))"

definition encode_indexed_field :: "z_mem_bytes_writer \<Rightarrow> int \<Rightarrow> int \<times> z_mem_bytes_writer" where
  "encode_indexed_field w field_index = write_length w 0xa0 (nat field_index)"

text \<open>
  \<open>z_bytes_writer_write (writer, src + start, n)\<close>: the sink checks its room first, and
  then copies \<open>src[start .. start + n)\<close>, which must lie inside the key.
\<close>

definition write_range ::
  "z_mem_bytes_writer \<Rightarrow> byte list \<Rightarrow> nat \<Rightarrow> nat \<Rightarrow> fault + int \<times> z_mem_bytes_writer" where
  "write_range w src start n =
     (if w_bufsize w < w_offset w + n then Inr (- ENOSPC, w)
      else if start + n \<le> length src then Inr (write_bytes w (take n (drop start src)))
      else Inl OutOfBounds)"

definition encode_prefix ::
  "z_mem_bytes_writer \<Rightarrow> byte list \<Rightarrow> nat \<Rightarrow> fault + int \<times> z_mem_bytes_writer" where
  "encode_prefix w key prefix =
     (let keylen = length key;
          len = keylen - prefix;
          w1 = snd (write_length w 0xc0 len);
          w2 = snd (write_u8 w1 (of_nat prefix))
      in case write_range w2 key prefix len of
           Inl f \<Rightarrow> Inl f
         | Inr (r, w3) \<Rightarrow> Inr (0, w3))"

definition encode_prefix_suffix ::
  "z_mem_bytes_writer \<Rightarrow> byte list \<Rightarrow> nat \<Rightarrow> nat \<Rightarrow> fault + int \<times> z_mem_bytes_writer" where
  "encode_prefix_suffix w key prefix suffix =
     (let keylen = length key;
          len = keylen - prefix - suffix;
          w1 = snd (write_length w 0xe0 len);
          w2 = snd (write_u8 w1 (of_nat prefix));
          w3 = snd (write_u8 w2 (of_nat suffix))
      in case write_range w3 key prefix (keylen - suffix) of
           Inl f \<Rightarrow> Inl f
         | Inr (r, w4) \<Rightarrow> Inr (0, w4))"

definition encode_full_field_name ::
  "z_mem_bytes_writer \<Rightarrow> byte list \<Rightarrow> fault + int \<times> z_mem_bytes_writer" where
  "encode_full_field_name w key =
     (let w1 = snd (write_length w 0x80 (length key))
      in case write_range w1 key 0 (length key) of
           Inl f \<Rightarrow> Inl f
         | Inr (r, w2) \<Rightarrow> Inr (0, w2))"

text \<open>
  \<open>yajbe_field_hencode\<close>. The result is \<open>None\<close> when the probe loop of \<open>hadd\<close> does not
  end, \<open>Inl\<close> of a fault, or the code returned with the encoder and the sink. The code
  of \<open>yajbe_field_encoder_hadd\<close> is dropped, as in the source.
\<close>

definition yajbe_field_hencode ::
  "yajbe_field_encoder \<Rightarrow> z_mem_bytes_writer \<Rightarrow> uint32 \<Rightarrow> byte list
     \<Rightarrow> (fault + int \<times> yajbe_field_encoder \<times> z_mem_bytes_writer) option" where
  "yajbe_field_hencode self w khash key =
     (let index = yajbe_field_encoder_hget self khash key in
      if index \<ge> 0 then
        (let (r, w1) = encode_indexed_field w index
         in Some (Inr (r, self\<lparr>enc_last_key := Some key\<rparr>, w1)))
      else
        let keylen = length key;
            emitted =
              (case enc_last_key self of
                 None \<Rightarrow> encode_full_field_name w key
               | Some last_key \<Rightarrow>
                   if length last_key > 4 then
                     (let prefix = Z_MIN 0xff (field_prefix last_key key);
                          suffix = field_suffix last_key key prefix (keylen - prefix)
                      in if suffix > 2 then encode_prefix_suffix w key prefix (Z_MIN 0xff suffix)
                         else if prefix > 2 then encode_prefix w key prefix
                         else encode_full_field_name w key)
                   else encode_full_field_name w key)
        in case emitted of
             Inl f \<Rightarrow> Some (Inl f)
           | Inr (r, w1) \<Rightarrow>
               (case yajbe_field_encoder_hadd self khash key of
                  None \<Rightarrow> None
                | Some (Inl f) \<Rightarrow> Some (Inl f)
                | Some (Inr (r1, self1)) \<Rightarrow> Some (Inr (0, self1\<lparr>enc_last_key := Some key\<rparr>, w1))))"

definition yajbe_field_encode ::
  "yajbe_field_encoder \<Rightarrow> z_mem_bytes_writer \<Rightarrow> byte list
     \<Rightarrow> (fault + int \<times> yajbe_field_encoder \<times> z_mem_bytes_writer) option" where
  "yajbe_field_encode self w key = yajbe_field_hencode self w (hash_fnv_1a key) key"

section \<open>Field-name decoder (fields-decoder.c)\<close>

text \<open>
  \<open>yajbe_field_t\<close> is a pointer into the name arena and a length; the pointer is the
  offset in the arena. \<open>dec_entries\<close> holds the entries appended so far
  (\<open>entries_count\<close> is its length); the slots of the caller's array beyond them were
  never assigned. \<open>last_field.name\<close> is \<open>NULL\<close> (\<open>None\<close>) until the first key.
\<close>

record yajbe_field =
  f_name :: nat
  f_length :: nat

record yajbe_field_decoder =
  dec_entries :: "yajbe_field list"
  dec_entries_size :: nat
  dec_buffer :: "byte list"
  dec_buf_off :: nat
  dec_last_field :: "yajbe_field option"

definition dec_entries_count :: "yajbe_field_decoder \<Rightarrow> nat" where
  "dec_entries_count self = length (dec_entries self)"

definition dec_buf_size :: "yajbe_field_decoder \<Rightarrow> nat" where
  "dec_buf_size self = length (dec_buffer self)"

definition yajbe_field_decoder_init_fixed :: "nat \<Rightarrow> byte list \<Rightarrow> yajbe_field_decoder" where
  "yajbe_field_decoder_init_fixed entries_size buffer =
     \<lparr>dec_entries = [], dec_entries_size = entries_size, dec_buffer = buffer,
      dec_buf_off = 0, dec_last_field = None\<rparr>"

text \<open>The bytes a field denotes: \<open>name[0 .. length)\<close>.\<close>

definition field_bytes :: "yajbe_field_decoder \<Rightarrow> yajbe_field \<Rightarrow> byte list" where
  "field_bytes self f = take (f_length f) (drop (f_name f) (dec_buffer self))"

definition field_next_entry ::
  "yajbe_field_decoder \<Rightarrow> nat \<Rightarrow> (yajbe_field \<times> yajbe_field_decoder) option" where
  "field_next_entry self len =
     (if dec_buf_size self < dec_buf_off self + len then None
      else
        let field = \<lparr>f_name = dec_buf_off self, f_length = len\<rparr>
        in Some (field, self\<lparr>dec_entries := dec_entries self @ [field],
                              dec_buf_off := dec_buf_off self + len\<rparr>))"

text \<open>
  \<open>__read_length\<close> drops the codes of the source: when a read is refused, the local it
  should have assigned is used unassigned.
\<close>

definition read_length :: "z_mem_bytes_reader \<Rightarrow> int \<Rightarrow> fault + nat \<times> z_mem_bytes_reader" where
  "read_length reader head =
     (let len = nat (head AND 0x1f) in
      if len < 30 then Inr (len, reader)
      else if len = 30 then
        (case read_u8 reader of
           Inl r \<Rightarrow> Inl Uninitialised
         | Inr (v, reader1) \<Rightarrow> Inr (29 + unat v, reader1))
      else
        (case read_bytes reader 2 of
           Inl r \<Rightarrow> Inl Uninitialised
         | Inr (buf, reader1) \<Rightarrow> Inr (284 + 256 * unat (buf ! 0) + unat (buf ! 1), reader1)))"

text \<open>
  \<open>z_bytes_reader_read (reader, name, length)\<close> into the arena at \<open>dst\<close>, its code
  dropped: a refused read leaves the arena and the source as they were.
\<close>

definition read_into ::
  "byte list \<Rightarrow> nat \<Rightarrow> z_mem_bytes_reader \<Rightarrow> nat \<Rightarrow> byte list \<times> z_mem_bytes_reader" where
  "read_into buffer dst reader len =
     (case read_bytes reader len of
        Inl r \<Rightarrow> (buffer, reader)
      | Inr (bs, reader1) \<Rightarrow> (store_bytes buffer dst bs, reader1))"

text \<open>
  \<open>memcpy (arena + dst, arena + src, n)\<close> where the destination is the entry just
  reserved at the end of the used arena. The source has to lie below the destination;
  otherwise the two overlap or the source leaves the arena.
\<close>

definition arena_copy :: "byte list \<Rightarrow> nat \<Rightarrow> nat \<Rightarrow> nat \<Rightarrow> fault + byte list" where
  "arena_copy buffer dst src n =
     (if n = 0 then Inr buffer
      else if src + n \<le> dst then Inr (store_bytes buffer dst (take n (drop src buffer)))
      else Inl OutOfBounds)"

type_synonym field_read =
  "fault + (int \<times> yajbe_field option \<times> yajbe_field_decoder \<times> z_mem_bytes_reader)"

definition read_full_field_name ::
  "yajbe_field_decoder \<Rightarrow> z_mem_bytes_reader \<Rightarrow> int \<Rightarrow> field_read" where
  "read_full_field_name self reader head =
     (if dec_entries_count self = dec_entries_size self then Inr (- ENOSPC, None, self, reader)
      else case read_length reader head of
             Inl f \<Rightarrow> Inl f
           | Inr (len, reader1) \<Rightarrow>
               (case field_next_entry self len of
                  None \<Rightarrow> Inr (- ENOSPC, None, self, reader1)
                | Some (field, self1) \<Rightarrow>
                    let (buffer2, reader2) = read_into (dec_buffer self1) (f_name field) reader1 len
                    in Inr (0, Some field,
                            self1\<lparr>dec_buffer := buffer2, dec_last_field := Some field\<rparr>, reader2)))"

text \<open>
  \<open>__read_indexed_field_name\<close> takes \<open>&entries[index]\<close> with no check of \<open>index\<close>. An
  index at or beyond \<open>entries_size\<close> is outside the array; one from \<open>entries_count\<close> on,
  inside the array, is a slot that was never assigned.
\<close>

definition read_indexed_field_name ::
  "yajbe_field_decoder \<Rightarrow> z_mem_bytes_reader \<Rightarrow> int \<Rightarrow> field_read" where
  "read_indexed_field_name self reader head =
     (case read_length reader head of
        Inl f \<Rightarrow> Inl f
      | Inr (index, reader1) \<Rightarrow>
          if index < dec_entries_count self then
            (let field = dec_entries self ! index
             in Inr (0, Some field, self\<lparr>dec_last_field := Some field\<rparr>, reader1))
          else if index < dec_entries_size self then Inl Uninitialised
          else Inl OutOfBounds)"

definition read_prefix ::
  "yajbe_field_decoder \<Rightarrow> z_mem_bytes_reader \<Rightarrow> int \<Rightarrow> field_read" where
  "read_prefix self reader head =
     (if dec_entries_count self = dec_entries_size self then Inr (- ENOSPC, None, self, reader)
      else case read_length reader head of
             Inl f \<Rightarrow> Inl f
           | Inr (len, reader1) \<Rightarrow>
               (case read_u8 reader1 of
                  Inl r \<Rightarrow> Inl Uninitialised
                | Inr (p, reader2) \<Rightarrow>
                    let prefix = unat p in
                    (case field_next_entry self (prefix + len) of
                       None \<Rightarrow> Inr (- ENOSPC, None, self, reader2)
                     | Some (field, self1) \<Rightarrow>
                         (case (case dec_last_field self of
                                  None \<Rightarrow> (if prefix = 0 then Inr (dec_buffer self1) else Inl OutOfBounds)
                                | Some lastf \<Rightarrow> arena_copy (dec_buffer self1) (f_name field) (f_name lastf) prefix) of
                            Inl f \<Rightarrow> Inl f
                          | Inr buffer2 \<Rightarrow>
                              let (buffer3, reader3) = read_into buffer2 (f_name field + prefix) reader2 len
                              in Inr (0, Some field,
                                      self1\<lparr>dec_buffer := buffer3, dec_last_field := Some field\<rparr>,
                                      reader3)))))"

text \<open>
  In \<open>__read_prefix_suffix\<close> the source of the second \<open>memcpy\<close> is
  \<open>last_field.name + last_field.length - delta[1]\<close>, a pointer below the arena when
  \<open>delta[1]\<close> is larger than \<open>name + length\<close>.
\<close>

definition read_prefix_suffix ::
  "yajbe_field_decoder \<Rightarrow> z_mem_bytes_reader \<Rightarrow> int \<Rightarrow> field_read" where
  "read_prefix_suffix self reader head =
     (if dec_entries_count self = dec_entries_size self then Inr (- ENOSPC, None, self, reader)
      else case read_length reader head of
             Inl f \<Rightarrow> Inl f
           | Inr (len, reader1) \<Rightarrow>
               (case read_bytes reader1 2 of
                  Inl r \<Rightarrow> Inl Uninitialised
                | Inr (delta, reader2) \<Rightarrow>
                    let prefix = unat (delta ! 0); suffix = unat (delta ! 1) in
                    (case field_next_entry self (prefix + suffix + len) of
                       None \<Rightarrow> Inr (- ENOSPC, None, self, reader2)
                     | Some (field, self1) \<Rightarrow>
                         (case (case dec_last_field self of
                                  None \<Rightarrow> (if prefix = 0 then Inr (dec_buffer self1) else Inl OutOfBounds)
                                | Some lastf \<Rightarrow> arena_copy (dec_buffer self1) (f_name field) (f_name lastf) prefix) of
                            Inl f \<Rightarrow> Inl f
                          | Inr buffer2 \<Rightarrow>
                              let (buffer3, reader3) = read_into buffer2 (f_name field + prefix) reader2 len
                              in (case (case dec_last_field self of
                                          None \<Rightarrow> (if suffix = 0 then Inr buffer3 else Inl OutOfBounds)
                                        | Some lastf \<Rightarrow>
                                            if suffix \<le> f_name lastf + f_length lastf
                                            then arena_copy buffer3 (f_name field + prefix + len)
                                                   (f_name lastf + f_length lastf - suffix) suffix
                                            else Inl OutOfBounds) of
                                    Inl f \<Rightarrow> Inl f
                                  | Inr buffer4 \<Rightarrow>
                                      Inr (0, Some field,
                                           self1\<lparr>dec_buffer := buffer4, dec_last_field := Some field\<rparr>,
                                           reader3))))))"

text \<open>
  \<open>yajbe_field_decode\<close> drops the code of the read of the head byte, and uses \<open>head\<close>
  unassigned when that read was refused.
\<close>

definition yajbe_field_decode :: "yajbe_field_decoder \<Rightarrow> z_mem_bytes_reader \<Rightarrow> field_read" where
  "yajbe_field_decode self reader =
     (case read_u8 reader of
        Inl r \<Rightarrow> Inl Uninitialised
      | Inr (b, reader1) \<Rightarrow>
          let head = uint b; family = drop_bit 5 head AND 7 in
          if family = 4 then read_full_field_name self reader1 head
          else if family = 5 then read_indexed_field_name self reader1 head
          else if family = 6 then read_prefix self reader1 head
          else if family = 7 then read_prefix_suffix self reader1 head
          else Inr (- 1, None, self, reader1))"

section \<open>The loops of the field test (test-field.c)\<close>

text \<open>
  \<open>encode_fields\<close> feeds the keys one by one to \<open>yajbe_field_encode\<close> and ignores the
  codes; the model keeps them. \<open>decode_fields\<close> calls \<open>yajbe_field_decode\<close> once per
  expected key and looks at the bytes of the field returned, at the time it is returned.
\<close>

fun encode_keys ::
  "yajbe_field_encoder \<Rightarrow> z_mem_bytes_writer \<Rightarrow> byte list list
     \<Rightarrow> (fault + int list \<times> yajbe_field_encoder \<times> z_mem_bytes_writer) option" where
  "encode_keys self w [] = Some (Inr ([], self, w))"
| "encode_keys self w (key # keys) =
     (case yajbe_field_encode self w key of
        None \<Rightarrow> None
      | Some (Inl f) \<Rightarrow> Some (Inl f)
      | Some (Inr (r, self1, w1)) \<Rightarrow>
          (case encode_keys self1 w1 keys of
             None \<Rightarrow> None
           | Some (Inl f) \<Rightarrow> Some (Inl f)
           | Some (Inr (rs, self2, w2)) \<Rightarrow> Some (Inr (r # rs, self2, w2))))"

definition encode_fields :: "nat \<Rightarrow> nat \<Rightarrow> byte list list \<Rightarrow> (fault + int list \<times> byte list) option" where
  "encode_fields entries_size bufsize keys =
     (case encode_keys (yajbe_field_encoder_init_fixed entries_size) (fresh_writer bufsize) keys of
        None \<Rightarrow> None
      | Some (Inl f) \<Rightarrow> Some (Inl f)
      | Some (Inr (rs, self, w)) \<Rightarrow> Some (Inr (rs, written w)))"

fun decode_keys ::
  "yajbe_field_decoder \<Rightarrow> z_mem_bytes_reader \<Rightarrow> nat \<Rightarrow> fault + (int \<times> byte list option) list" where
  "decode_keys self reader 0 = Inr []"
| "decode_keys self reader (Suc n) =
     (case yajbe_field_decode self reader of
        Inl f \<Rightarrow> Inl f
      | Inr (r, field, self1, reader1) \<Rightarrow>
          (case decode_keys self1 reader1 n of
             Inl f \<Rightarrow> Inl f
           | Inr rest \<Rightarrow> Inr ((r, map_option (field_bytes self1) field) # rest)))"

definition decode_fields ::
  "nat \<Rightarrow> nat \<Rightarrow> byte list \<Rightarrow> nat \<Rightarrow> fault + (int \<times> byte list option) list" where
  "decode_fields entries_size arena_size stream n =
     decode_keys (yajbe_field_decoder_init_fixed entries_size (replicate arena_size 0))
       (z_mem_bytes_reader_init stream) n"

text \<open>
  The token of each key: the code of the call and the bytes the call added to the sink.
\<close>

fun encode_tokens ::
  "yajbe_field_encoder \<Rightarrow> z_mem_bytes_writer \<Rightarrow> byte list list
     \<Rightarrow> (fault + (int \<times> byte list) list) option" where
  "encode_tokens self w [] = Some (Inr [])"
| "encode_tokens self w (key # keys) =
     (case yajbe_field_encode self w key of
        None \<Rightarrow> None
      | Some (Inl f) \<Rightarrow> Some (Inl f)
      | Some (Inr (r, self1, w1)) \<Rightarrow>
          (case encode_tokens self1 w1 keys of
             None \<Rightarrow> None
           | Some (Inl f) \<Rightarrow> Some (Inl f)
           | Some (Inr ts) \<Rightarrow> Some (Inr ((r, drop (w_offset w) (written w1)) # ts))))"

definition field_tokens :: "nat \<Rightarrow> nat \<Rightarrow> byte list list \<Rightarrow> (fault + (int \<times> byte list) list) option" where
  "field_tokens entries_size bufsize keys =
     encode_tokens (yajbe_field_encoder_init_fixed entries_size) (fresh_writer bufsize) keys"

text \<open>The keys of \<open>test-field.c\<close>, and the 55 bytes the encoder writes for them.\<close>

definition TEST_FIELDS :: "byte list list" where
  "TEST_FIELDS = map bytes_of [''foo'', ''bar'', ''test_foo'', ''test_bar'', ''foo'',
     ''prefix_foo_suffix'', ''prefix_bar_suffix'', ''bar'', ''test_foo'']"

definition TEST_STREAM :: "byte list" where
  "TEST_STREAM =
     [0x83, 0x66, 0x6f, 0x6f,
      0x83, 0x62, 0x61, 0x72,
      0x88, 0x74, 0x65, 0x73, 0x74, 0x5f, 0x66, 0x6f, 0x6f,
      0xc3, 0x05, 0x62, 0x61, 0x72,
      0xa0,
      0x91, 0x70, 0x72, 0x65, 0x66, 0x69, 0x78, 0x5f, 0x66, 0x6f, 0x6f, 0x5f, 0x73, 0x75, 0x66,
      0x66, 0x69, 0x78,
      0xca, 0x07, 0x62, 0x61, 0x72, 0x5f, 0x73, 0x75, 0x66, 0x66, 0x69, 0x78,
      0xa1,
      0xa2]"

section \<open>First-seen order and the invariant of the encoder table\<close>

text \<open>
  The keys of a call sequence in the order in which they are first seen, and the position
  of a key in such a list: the index the specification gives to the key.
\<close>

fun first_seen_from :: "'a list \<Rightarrow> 'a list \<Rightarrow> 'a list" where
  "first_seen_from seen [] = seen"
| "first_seen_from seen (k # ks) = first_seen_from (if k \<in> set seen then seen else seen @ [k]) ks"


fun index_of :: "'a list \<Rightarrow> 'a \<Rightarrow> nat" where
  "index_of [] k = 0"
| "index_of (x # xs) k = (if x = k then 0 else Suc (index_of xs k))"





section \<open>Evaluation on concrete inputs\<close>

text \<open>
  Rewrite rules that let the simplifier run the model on numerals: the recursions over a
  \<open>nat\<close> are unfolded at a numeral argument.
\<close>

lemma bit_length_0 [simp]: "bit_length 0 = 0"
  by (simp add: bit_length.simps)

lemma bit_length_1 [simp]: "bit_length (Suc 0) = 1" "bit_length 1 = 1"
  by (simp_all add: bit_length.simps)

lemma bit_length_Bit0 [simp]: "bit_length (numeral (Num.Bit0 n)) = Suc (bit_length (numeral n))"
  by (subst bit_length.simps) simp

lemma bit_length_Bit1 [simp]: "bit_length (numeral (Num.Bit1 n)) = Suc (bit_length (numeral n))"
  by (subst bit_length.simps) simp

lemma replicate_numeral: "replicate (numeral k) x = x # replicate (pred_numeral k) x"
  by (simp add: numeral_eq_Suc)

lemma write_ladder_numeral:
  "write_ladder buf off v (numeral k) =
     write_ladder (buf[off + pred_numeral k := ucast (drop_bit (8 * pred_numeral k) v)]) off v (pred_numeral k)"
  by (simp add: numeral_eq_Suc)

lemma read_ladder_numeral:
  "read_ladder buf off (numeral k) =
     push_bit (8 * pred_numeral k) (ucast (buf ! (off + pred_numeral k))) OR read_ladder buf off (pred_numeral k)"
  by (simp add: numeral_eq_Suc)

lemmas item_types = YAJBE_NULL_def YAJBE_FALSE_def YAJBE_TRUE_def YAJBE_INT_SMALL_def
  YAJBE_INT_POSITIVE_def YAJBE_INT_NEGATIVE_def YAJBE_SMALL_STRING_def YAJBE_STRING_def
  YAJBE_ENUM_CONFIG_def YAJBE_ENUM_STRING_def YAJBE_SMALL_BYTES_def YAJBE_BYTES_def
  YAJBE_FLOAT_VLE_def YAJBE_FLOAT_32_def YAJBE_FLOAT_64_def YAJBE_BIG_DECIMAL_def
  YAJBE_ARRAY_def YAJBE_ARRAY_EOF_def YAJBE_OBJECT_def YAJBE_OBJECT_EOF_def YAJBE_EOF_def

lemmas writer_eval = write_u8_def write_uint_def write_bytes_def store_bytes_def fresh_writer_def
  z_mem_bytes_writer_init_fixed_def written_def w_bufsize_def ENOSPC_def
  replicate_numeral write_ladder_numeral

lemmas encode_int_eval = encoded_int_def yajbe_encode_int_def yajbe_encode_positive_int_def
  yajbe_encode_negative_int_def int_bytes_width_def clzll_def Let_def

lemmas reader_eval = z_mem_bytes_reader_init_def read_u8_def read_uint_def read_bytes_def
  r_bufsize_def ENOSPC_def read_ladder_numeral

lemmas decode_next_eval = decoder_on_def yajbe_decoder_init_def yajbe_decode_next_def
  read_item_count_def read_item_length_def Let_def



lemma TOKEN_MAP_96: "TOKEN_MAP ! 96 = 3"
  by (simp add: TOKEN_MAP_def)

lemma Suc_Suc_0: "Suc (Suc 0) = 2"
  by simp

lemma hget_loop_numeral:
  "hget_loop es khash key msk hindex (numeral k) =
     (case es ! hindex of
        None \<Rightarrow> - 1
      | Some entry \<Rightarrow>
          if field_name_entry_equals entry khash key then e_index entry
          else hget_loop es khash key msk ((hindex + 1) AND msk) (pred_numeral k))"
  by (simp add: numeral_eq_Suc)

lemma decode_keys_numeral:
  "decode_keys self reader (numeral k) =
     (case yajbe_field_decode self reader of
        Inl f \<Rightarrow> Inl f
      | Inr (r, field, self1, reader1) \<Rightarrow>
          (case decode_keys self1 reader1 (pred_numeral k) of
             Inl f \<Rightarrow> Inl f
           | Inr rest \<Rightarrow> Inr ((r, map_option (field_bytes self1) field) # rest)))"
  by (simp add: numeral_eq_Suc)

lemmas field_encoder_eval = field_tokens_def encode_fields_def yajbe_field_encoder_init_fixed_def
  yajbe_field_encode_def yajbe_field_hencode_def yajbe_field_encoder_hget_def
  yajbe_field_encoder_hadd_def hadd_probe.simps hget_loop_numeral enc_entries_size_def
  field_name_entry_equals_def field_name_entry_set_def hash_fnv_1a_def
  field_prefix_def field_suffix_def prefix_loop.simps suffix_loop.simps Z_MIN_def
  write_length_def encode_indexed_field_def write_range_def encode_prefix_def
  encode_prefix_suffix_def encode_full_field_name_def bytes_of_def Let_def Suc_Suc_0

lemmas field_decoder_eval = decode_fields_def decode_keys_numeral yajbe_field_decoder_init_fixed_def
  yajbe_field_decode_def read_full_field_name_def read_indexed_field_name_def read_prefix_def
  read_prefix_suffix_def read_length_def read_into_def arena_copy_def field_next_entry_def
  field_bytes_def dec_entries_count_def dec_buf_size_def store_bytes_def Let_def bytes_of_def
  replicate_numeral Suc_Suc_0

section \<open>Integer framing\<close>

text \<open>
  Claim C8. \<open>yajbe_encode_int\<close> writes the single byte 0x60, the negative family with
  magnitude zero, for the value 0, and it reproduces the literal vectors of the
  specification and of \<open>test-int.c\<close>: 1 gives 40, 24 gives 57, 25 gives 58 00, 0xFF gives
  58 e6, 0xFFFF gives 59 e6 ff, -1 gives 61, -23 gives 77, -24 gives 78 00 and -0xFF gives
  78 e7. Each call returns 0.
\<close>

theorem encode_int_test_vectors:
  "encoded_int 0 = (0, [0x60]) \<and>
   encoded_int 1 = (0, [0x40]) \<and>
   encoded_int 24 = (0, [0x57]) \<and>
   encoded_int 25 = (0, [0x58, 0x00]) \<and>
   encoded_int 0xFF = (0, [0x58, 0xe6]) \<and>
   encoded_int 0xFFFF = (0, [0x59, 0xe6, 0xff]) \<and>
   encoded_int (- 1) = (0, [0x61]) \<and>
   encoded_int (- 23) = (0, [0x77]) \<and>
   encoded_int (- 24) = (0, [0x78, 0x00]) \<and>
   encoded_int (- 0xFF) = (0, [0x78, 0xe7])"
  by (simp add: encode_int_eval writer_eval)

subsection \<open>Every integer but the smallest is read back\<close>

lemma length_le_list [simp]: "length (le_list v k) = k"
  by (simp add: le_list_def)

lemma le_list_Suc: "le_list v (Suc k) = le_list v k @ [ucast (drop_bit (8 * k) v)]"
  by (simp add: le_list_def)

lemma write_ladder_store:
  "off + k \<le> length buf \<Longrightarrow> write_ladder buf off v k = store_bytes buf off (le_list v k)"
proof (induction k arbitrary: buf)
  case 0
  then show ?case by (simp add: store_bytes_def le_list_def)
next
  case (Suc k)
  let ?b = "ucast (drop_bit (8 * k) v) :: byte"
  have "write_ladder buf off v (Suc k) = write_ladder (buf[off + k := ?b]) off v k"
    by simp
  also have "\<dots> = store_bytes (buf[off + k := ?b]) off (le_list v k)"
    using Suc.prems by (intro Suc.IH) simp
  also have "\<dots> = take off buf @ le_list v k @ ?b # drop (off + Suc k) buf"
  proof -
    have "drop (off + k) (buf[off + k := ?b]) = ?b # drop (Suc (off + k)) (buf[off + k := ?b])"
      using Suc.prems by (simp flip: Cons_nth_drop_Suc)
    then show ?thesis
      by (simp add: store_bytes_def)
  qed
  finally show ?case
    by (simp add: store_bytes_def le_list_Suc)
qed

lemma read_ladder_le_list:
  "k \<le> 8 \<Longrightarrow> read_ladder (pre @ le_list v k @ post) (length pre) k = take_bit (8 * k) v"
proof (induction k arbitrary: post)
  case 0
  then show ?case by simp
next
  case (Suc k)
  let ?b = "ucast (drop_bit (8 * k) v) :: byte"
  have nth: "(le_list v (Suc k) @ post) ! k = ?b"
    by (simp add: le_list_Suc nth_append)
  have "read_ladder (pre @ le_list v (Suc k) @ post) (length pre) k =
        read_ladder (pre @ le_list v k @ (?b # post)) (length pre) k"
    by (simp add: le_list_Suc)
  also have "\<dots> = take_bit (8 * k) v"
    using Suc.prems by (intro Suc.IH) simp
  finally have rest: "read_ladder (pre @ le_list v (Suc k) @ post) (length pre) k = take_bit (8 * k) v" .
  have "push_bit (8 * k) (ucast ?b :: int64) OR take_bit (8 * k) v = take_bit (8 * Suc k) v"
    using Suc.prems by (intro bit_eqI) (auto simp: bit_simps)
  then show ?case
    by (simp add: nth rest)
qed


subsection \<open>Width of an integer\<close>

lemma bit_length_bound: "n < 2 ^ bit_length n"
proof (induction n rule: bit_length.induct)
  case (1 n)
  show ?case
  proof (cases "n = 0")
    case True
    then show ?thesis by simp
  next
    case False
    with 1 have "n div 2 < 2 ^ bit_length (n div 2)"
      by simp
    then have "n < 2 * 2 ^ bit_length (n div 2)"
      by simp
    with False show ?thesis
      by (subst bit_length.simps) simp
  qed
qed

lemma bit_length_le: "n < 2 ^ k \<Longrightarrow> bit_length n \<le> k"
proof (induction k arbitrary: n)
  case 0
  then show ?case by simp
next
  case (Suc k)
  show ?case
  proof (cases "n = 0")
    case True
    then show ?thesis by simp
  next
    case False
    from Suc.prems have "n div 2 < 2 ^ k"
      by simp
    then have "bit_length (n div 2) \<le> k"
      by (rule Suc.IH)
    with False show ?thesis
      by (subst bit_length.simps) simp
  qed
qed

lemma bit_length_pos: "0 < n \<Longrightarrow> 0 < bit_length n"
  by (subst bit_length.simps) simp

lemma int_bytes_width_range: "1 \<le> int_bytes_width v \<and> int_bytes_width v \<le> 8"
proof (cases "v = 0")
  case True
  then show ?thesis by (simp add: int_bytes_width_def)
next
  case False
  then have "0 < unat v"
    by (simp add: unat_gt_0)
  then have low: "0 < bit_length (unat v)"
    by (rule bit_length_pos)
  have "unat v < 2 ^ 64"
    using unsigned_less [of v, where 'a = nat] by simp
  then have high: "bit_length (unat v) \<le> 64"
    by (rule bit_length_le)
  from high False have "int_bytes_width v = (bit_length (unat v) + 7) div 8"
    by (simp add: int_bytes_width_def clzll_def drop_bit_eq_div)
  with low high show ?thesis
    by presburger
qed

lemma int_bytes_width_fits: "take_bit (8 * int_bytes_width v) v = v"
proof (cases "v = 0")
  case True
  then show ?thesis by simp
next
  case False
  have "unat v < 2 ^ 64"
    using unsigned_less [of v, where 'a = nat] by simp
  then have high: "bit_length (unat v) \<le> 64"
    by (rule bit_length_le)
  then have width: "int_bytes_width v = (bit_length (unat v) + 7) div 8"
    using False by (simp add: int_bytes_width_def clzll_def drop_bit_eq_div)
  have "bit_length (unat v) \<le> 8 * int_bytes_width v"
    unfolding width by presburger
  then have "(2::nat) ^ bit_length (unat v) \<le> 2 ^ (8 * int_bytes_width v)"
    by (rule power_increasing) simp
  with bit_length_bound [of "unat v"] have "unat v < 2 ^ (8 * int_bytes_width v)"
    by (rule less_le_trans)
  then have "take_bit (8 * int_bytes_width v) (unat v) = unat v"
    by (rule take_bit_nat_eq_self)
  then show ?thesis
    by (simp add: word_unat_eq_iff unsigned_take_bit_eq)
qed

subsection \<open>A head byte and a little-endian integer through sink and source\<close>

lemma write_u8_fresh:
  "write_u8 (fresh_writer 32) h = (0, \<lparr>w_buffer = (replicate 32 0)[0 := h], w_offset = 1\<rparr>)"
  by (simp add: write_u8_def fresh_writer_def z_mem_bytes_writer_init_fixed_def w_bufsize_def)

lemma write_uint_after_head:
  assumes "1 \<le> k" and "k \<le> 8"
  shows "fst (write_uint \<lparr>w_buffer = (replicate 32 0)[0 := h], w_offset = 1\<rparr> v k) = 0"
    and "written (snd (write_uint \<lparr>w_buffer = (replicate 32 0)[0 := h], w_offset = 1\<rparr> v k)) =
           h # le_list v k"
proof -
  let ?buf = "replicate 32 (0::byte)"
  have "write_ladder (?buf[0 := h]) 1 v k = store_bytes (?buf[0 := h]) 1 (le_list v k)"
    using assms by (intro write_ladder_store) simp
  moreover have "take (Suc k) (store_bytes (?buf[0 := h]) 1 (le_list v k)) = h # le_list v k"
    using assms by (simp add: store_bytes_def replicate_numeral)
  ultimately show
    "written (snd (write_uint \<lparr>w_buffer = ?buf[0 := h], w_offset = 1\<rparr> v k)) = h # le_list v k"
    using assms by (simp add: write_uint_def written_def w_bufsize_def)
  show "fst (write_uint \<lparr>w_buffer = ?buf[0 := h], w_offset = 1\<rparr> v k) = 0"
    using assms by (simp add: write_uint_def w_bufsize_def)
qed

lemma read_uint_after_head:
  assumes "Suc 0 \<le> k" and "k \<le> 8"
  shows "read_uint \<lparr>r_buffer = h # le_list v k, r_offset = Suc 0\<rparr> k =
           Inr (take_bit (8 * k) v, \<lparr>r_buffer = h # le_list v k, r_offset = Suc k\<rparr>)"
proof -
  have "read_ladder ([h] @ le_list v k @ []) (length [h]) k = take_bit (8 * k) v"
    using assms(2) by (rule read_ladder_le_list)
  then show ?thesis
    using assms by (simp add: read_uint_def r_bufsize_def)
qed

subsection \<open>Round trip of the integers\<close>

lemma decode_wide_int:
  assumes "1 \<le> k" and "k \<le> 8" and "(uint h AND 0x1f) - 23 = int k"
  shows "TOKEN_MAP ! unat h = 4 \<Longrightarrow>
           decoded_int (h # le_list v k) = Some (0, Some (take_bit (8 * k) v + 25))"
    and "TOKEN_MAP ! unat h = 5 \<Longrightarrow>
           decoded_int (h # le_list v k) = Some (0, Some (- (take_bit (8 * k) v + 24)))"
proof -
  have len: "unat (word_of_int (int k) :: int64) = k"
    using assms(2) by (simp add: unat_of_nat)
  show "TOKEN_MAP ! unat h = 4 \<Longrightarrow>
           decoded_int (h # le_list v k) = Some (0, Some (take_bit (8 * k) v + 25))"
    using assms len
    by (simp add: decoded_int_def yajbe_decode_next_int_def decode_next_eval
        z_mem_bytes_reader_init_def read_u8_def r_bufsize_def item_types yajbe_decode_int_def
        decode_int_positive_def read_uint_after_head)
  show "TOKEN_MAP ! unat h = 5 \<Longrightarrow>
           decoded_int (h # le_list v k) = Some (0, Some (- (take_bit (8 * k) v + 24)))"
    using assms len
    by (simp add: decoded_int_def yajbe_decode_next_int_def decode_next_eval
        z_mem_bytes_reader_init_def read_u8_def r_bufsize_def item_types yajbe_decode_int_def
        decode_int_negative_def read_uint_after_head)
qed

lemma wide_head:
  assumes "1 \<le> k" and "k \<le> 8"
  shows "TOKEN_MAP ! unat (of_nat (0x40 OR (23 + k)) :: byte) = 4"
    and "(uint (of_nat (0x40 OR (23 + k)) :: byte) AND 0x1f) - 23 = int k"
    and "TOKEN_MAP ! unat (of_nat (0x60 OR (23 + k)) :: byte) = 5"
    and "(uint (of_nat (0x60 OR (23 + k)) :: byte) AND 0x1f) - 23 = int k"
proof -
  from assms have "k = 1 \<or> k = 2 \<or> k = 3 \<or> k = 4 \<or> k = 5 \<or> k = 6 \<or> k = 7 \<or> k = 8"
    by arith
  then show "TOKEN_MAP ! unat (of_nat (0x40 OR (23 + k)) :: byte) = 4"
    by (elim disjE) (simp_all add: TOKEN_MAP_def)
  from assms have "k = 1 \<or> k = 2 \<or> k = 3 \<or> k = 4 \<or> k = 5 \<or> k = 6 \<or> k = 7 \<or> k = 8"
    by arith
  then show "(uint (of_nat (0x40 OR (23 + k)) :: byte) AND 0x1f) - 23 = int k"
    by (elim disjE) simp_all
  from assms have "k = 1 \<or> k = 2 \<or> k = 3 \<or> k = 4 \<or> k = 5 \<or> k = 6 \<or> k = 7 \<or> k = 8"
    by arith
  then show "TOKEN_MAP ! unat (of_nat (0x60 OR (23 + k)) :: byte) = 5"
    by (elim disjE) (simp_all add: TOKEN_MAP_def)
  from assms have "k = 1 \<or> k = 2 \<or> k = 3 \<or> k = 4 \<or> k = 5 \<or> k = 6 \<or> k = 7 \<or> k = 8"
    by arith
  then show "(uint (of_nat (0x60 OR (23 + k)) :: byte) AND 0x1f) - 23 = int k"
    by (elim disjE) simp_all
qed

lemma int_round_trip_wide_positive:
  assumes "24 < sint v"
  shows "int_round_trips v"
proof -
  define k where "k = int_bytes_width (v - 25)"
  define h :: byte where "h = of_nat (0x40 OR (23 + k))"
  have k: "1 \<le> k" "k \<le> 8"
    using int_bytes_width_range [of "v - 25"] by (simp_all add: k_def)
  have enc: "encoded_int v = (0, h # le_list (v - 25) k)"
    using assms write_uint_after_head [OF k, of h "v - 25"]
    by (simp add: encoded_int_def yajbe_encode_int_def yajbe_encode_positive_int_def Let_def
        write_u8_fresh case_prod_beta flip: k_def h_def)
  have "decoded_int (h # le_list (v - 25) k) = Some (0, Some (take_bit (8 * k) (v - 25) + 25))"
    unfolding h_def using k wide_head(2) [OF k] wide_head(1) [OF k] by (rule decode_wide_int(1))
  also have "take_bit (8 * k) (v - 25) = v - 25"
    unfolding k_def by (rule int_bytes_width_fits)
  finally show ?thesis
    by (simp add: int_round_trips_def enc)
qed


lemma sint_minus:
  assumes "v \<noteq> - 9223372036854775808"
  shows "sint (- v) = - sint (v :: int64)"
proof -
  have "sint v \<noteq> - 9223372036854775808"
  proof
    assume "sint v = - 9223372036854775808"
    then have "word_of_int (sint v) = (word_of_int (- 9223372036854775808) :: int64)"
      by simp
    with assms show False by simp
  qed
  moreover have "- 9223372036854775808 \<le> sint v"
    using sint_greater_eq [of v] by simp
  moreover have "sint v < 9223372036854775808"
    using sint_less [of v] by simp
  ultimately have "- (2 ^ 63) \<le> - sint v" and "- sint v < 2 ^ 63"
    by simp_all
  then have "signed_take_bit 63 (- sint v) = - sint v"
    by (rule signed_take_bit_int_eq_self)
  then show ?thesis
    by (simp add: sint_word_ariths)
qed

lemma int_round_trip_wide_negative:
  assumes "sint v < - 23" and "v \<noteq> - 9223372036854775808"
  shows "int_round_trips v"
proof -
  define k where "k = int_bytes_width (- v - 24)"
  define h :: byte where "h = of_nat (0x60 OR (23 + k))"
  have k: "1 \<le> k" "k \<le> 8"
    using int_bytes_width_range [of "- v - 24"] by (simp_all add: k_def)
  have neg: "sint (- v) = - sint v"
    using assms(2) by (rule sint_minus)
  have enc: "encoded_int v = (0, h # le_list (- v - 24) k)"
    using assms(1) neg write_uint_after_head [OF k, of h "- v - 24"]
    by (simp add: encoded_int_def yajbe_encode_int_def yajbe_encode_negative_int_def Let_def
        write_u8_fresh case_prod_beta flip: k_def h_def)
  have "decoded_int (h # le_list (- v - 24) k) =
          Some (0, Some (- (take_bit (8 * k) (- v - 24) + 24)))"
    unfolding h_def using k wide_head(4) [OF k] wide_head(3) [OF k] by (rule decode_wide_int(2))
  also have "take_bit (8 * k) (- v - 24) = - v - 24"
    unfolding k_def by (rule int_bytes_width_fits)
  finally show ?thesis
    by (simp add: int_round_trips_def enc)
qed

lemma int_round_trip_small_values:
  shows "int_round_trips (- 23)"
    "int_round_trips (- 22)"
    "int_round_trips (- 21)"
    "int_round_trips (- 20)"
    "int_round_trips (- 19)"
    "int_round_trips (- 18)"
    "int_round_trips (- 17)"
    "int_round_trips (- 16)"
    "int_round_trips (- 15)"
    "int_round_trips (- 14)"
    "int_round_trips (- 13)"
    "int_round_trips (- 12)"
    "int_round_trips (- 11)"
    "int_round_trips (- 10)"
    "int_round_trips (- 9)"
    "int_round_trips (- 8)"
    "int_round_trips (- 7)"
    "int_round_trips (- 6)"
    "int_round_trips (- 5)"
    "int_round_trips (- 4)"
    "int_round_trips (- 3)"
    "int_round_trips (- 2)"
    "int_round_trips (- 1)"
    "int_round_trips 0"
    "int_round_trips 1"
    "int_round_trips 2"
    "int_round_trips 3"
    "int_round_trips 4"
    "int_round_trips 5"
    "int_round_trips 6"
    "int_round_trips 7"
    "int_round_trips 8"
    "int_round_trips 9"
    "int_round_trips 10"
    "int_round_trips 11"
    "int_round_trips 12"
    "int_round_trips 13"
    "int_round_trips 14"
    "int_round_trips 15"
    "int_round_trips 16"
    "int_round_trips 17"
    "int_round_trips 18"
    "int_round_trips 19"
    "int_round_trips 20"
    "int_round_trips 21"
    "int_round_trips 22"
    "int_round_trips 23"
    "int_round_trips 24"
  by (simp_all add: int_round_trips_def encode_int_eval writer_eval decoded_int_def
      yajbe_decode_next_int_def decode_next_eval reader_eval TOKEN_MAP_def item_types
      yajbe_decode_int_def decode_small_int_def)

lemma int_round_trip_small:
  assumes "- 23 \<le> sint v" and "sint v \<le> 24"
  shows "int_round_trips v"
proof -
  have v: "v = word_of_int (sint v)"
    by simp
  from assms have "sint v = - 23 \<or> sint v = - 22 \<or> sint v = - 21 \<or> sint v = - 20 \<or> sint v = - 19 \<or> sint v = - 18 \<or> sint v = - 17 \<or> sint v = - 16 \<or> sint v = - 15 \<or> sint v = - 14 \<or> sint v = - 13 \<or> sint v = - 12 \<or> sint v = - 11 \<or> sint v = - 10 \<or> sint v = - 9 \<or> sint v = - 8 \<or> sint v = - 7 \<or> sint v = - 6 \<or> sint v = - 5 \<or> sint v = - 4 \<or> sint v = - 3 \<or> sint v = - 2 \<or> sint v = - 1 \<or> sint v = 0 \<or> sint v = 1 \<or> sint v = 2 \<or> sint v = 3 \<or> sint v = 4 \<or> sint v = 5 \<or> sint v = 6 \<or> sint v = 7 \<or> sint v = 8 \<or> sint v = 9 \<or> sint v = 10 \<or> sint v = 11 \<or> sint v = 12 \<or> sint v = 13 \<or> sint v = 14 \<or> sint v = 15 \<or> sint v = 16 \<or> sint v = 17 \<or> sint v = 18 \<or> sint v = 19 \<or> sint v = 20 \<or> sint v = 21 \<or> sint v = 22 \<or> sint v = 23 \<or> sint v = 24"
    by presburger
  then show ?thesis
    by (elim disjE; subst v) (simp_all add: int_round_trip_small_values)
qed

lemma int_round_trip:
  assumes "v \<noteq> - 9223372036854775808"
  shows "int_round_trips v"
proof -
  consider "24 < sint v" | "- 23 \<le> sint v" "sint v \<le> 24" | "sint v < - 23"
    by linarith
  then show ?thesis
  proof cases
    case 1
    then show ?thesis by (rule int_round_trip_wide_positive)
  next
    case 2
    then show ?thesis by (rule int_round_trip_small)
  next
    case 3
    then show ?thesis using assms by (rule int_round_trip_wide_negative)
  qed
qed

text \<open>
  Claim C1, at the integer the encoder misses. The round trip of primitive values fails
  for the smallest \<open>int64_t\<close>, \<open>-9223372036854775808\<close>: \<open>value = -value\<close> leaves it
  unchanged, the signed test \<open>value <= 23\<close> then takes the one-byte branch, and the byte
  written is 0x60, which \<open>yajbe_decode_next_int\<close> reads back as 0. Every other
  \<open>int64_t\<close> is read back as it was written (lemma \<open>int_round_trip\<close>).
\<close>

theorem encode_int_min_decodes_as_zero:
  "encoded_int (- 9223372036854775808) = (0, [0x60]) \<and>
   decoded_int [0x60] = Some (0, Some 0)"
  by (simp add: encode_int_eval writer_eval decoded_int_def yajbe_decode_next_int_def
      decode_next_eval reader_eval TOKEN_MAP_96 item_types yajbe_decode_int_def decode_small_int_def)

section \<open>Errors of the byte source\<close>

text \<open>
  Claim C5, at a source with no bytes left. \<open>yajbe_decode_next\<close> and
  \<open>yajbe_decode_next_null\<close> return the negative code \<open>-ENOSPC\<close> of the refused read, but
  the combined operations for bool, int, float, double, bytes and string return 0, the
  code of success, and assign no value: their test \<open>if (r < 0) return 0\<close> drops the
  code.
\<close>

theorem decode_next_typed_on_empty_source:
  "yajbe_decode_next (decoder_on []) = (- ENOSPC, decoder_on []) \<and>
   yajbe_decode_next_null (decoder_on []) = (- ENOSPC, decoder_on []) \<and>
   yajbe_decode_next_bool (decoder_on []) = Inr (0, None, decoder_on []) \<and>
   yajbe_decode_next_int (decoder_on []) = Inr (0, None, decoder_on []) \<and>
   yajbe_decode_next_float (decoder_on []) = Inr (0, None, decoder_on []) \<and>
   yajbe_decode_next_double (decoder_on []) = Inr (0, None, decoder_on []) \<and>
   yajbe_decode_next_bytes (decoder_on []) 16 = Inr (0, None, decoder_on []) \<and>
   yajbe_decode_next_string (decoder_on []) 16 = Inr (0, None, decoder_on [])"
  by (simp add: yajbe_decode_next_null_def yajbe_decode_next_bool_def yajbe_decode_next_int_def
      yajbe_decode_next_float_def yajbe_decode_next_double_def yajbe_decode_next_bytes_def
      yajbe_decode_next_string_def decode_next_eval reader_eval item_types)

section \<open>The end-of-container byte\<close>




section \<open>Field names on concrete key sequences\<close>

text \<open>The run of \<open>test-field.c\<close>: the token of each key, the stream, and what is decoded.\<close>

lemma test_fields_tokens:
  "field_tokens 16 64 TEST_FIELDS =
     Some (Inr [(0, 0x83 # bytes_of ''foo''), (0, 0x83 # bytes_of ''bar''),
                (0, 0x88 # bytes_of ''test_foo''), (0, [0xc3, 0x05] @ bytes_of ''bar''),
                (0, [0xa0]), (0, 0x91 # bytes_of ''prefix_foo_suffix''),
                (0, [0xca, 0x07] @ bytes_of ''bar_suffix''), (0, [0xa1]), (0, [0xa2])])"
  by (simp add: TEST_FIELDS_def field_encoder_eval writer_eval)

lemma test_fields_stream:
  "encode_fields 16 64 TEST_FIELDS = Some (Inr ([0, 0, 0, 0, 0, 0, 0, 0, 0], TEST_STREAM))"
  by (simp add: TEST_FIELDS_def TEST_STREAM_def field_encoder_eval writer_eval)

lemma test_fields_decoded:
  "decode_fields 16 256 TEST_STREAM 9 = Inr (map (\<lambda>key. (0, Some key)) TEST_FIELDS)"
  by (simp add: TEST_FIELDS_def TEST_STREAM_def field_decoder_eval reader_eval)

text \<open>
  Claim C3 as stated fails: the token written for the fourth key, \<open>test_bar\<close>, after
  \<open>test_foo\<close>, is \<open>c3 05 62 61 72\<close>. Its head byte has the top bits 110, the prefix form
  (prefix 5, then \<open>bar\<close>), and not 111, the prefix+suffix form: \<open>test_foo\<close> and
  \<open>test_bar\<close> share no suffix.
\<close>

theorem test_bar_token_is_prefix_form:
  "(case field_tokens 16 64 TEST_FIELDS of
      Some (Inr ts) \<Rightarrow> snd (ts ! 3) = [0xc3, 0x05, 0x62, 0x61, 0x72]
                        \<and> drop_bit 5 (hd (snd (ts ! 3))) = 6
                        \<and> drop_bit 5 (hd (snd (ts ! 3))) \<noteq> 7
    | _ \<Rightarrow> False)"
  by (simp add: test_fields_tokens bytes_of_def)

text \<open>
  Claim C3, amended. Encoding the nine keys of the test through the field encoder (table of
  16 entries, sink of 64 bytes) returns 0 for each key; the token of the fifth key,
  \<open>foo\<close>, is the indexed form carrying index 0 (the byte a0); the token of \<open>test_bar\<close> is
  a prefix delta (head family 110) against \<open>test_foo\<close>: length 3, prefix 5, then \<open>bar\<close>;
  and decoding the stream written yields the nine keys, byte for byte and in order.
\<close>

theorem test_fields_round_trip:
  "\<exists>ts stream.
     field_tokens 16 64 TEST_FIELDS = Some (Inr ts) \<and>
     encode_fields 16 64 TEST_FIELDS = Some (Inr (replicate 9 0, stream)) \<and>
     length ts = 9 \<and>
     ts ! 4 = (0, [0xa0]) \<and>
     ts ! 3 = (0, [0xc3, 0x05] @ bytes_of ''bar'') \<and>
     decode_fields 16 256 stream 9 = Inr (map (\<lambda>key. (0, Some key)) TEST_FIELDS)"
  by (simp add: test_fields_tokens test_fields_stream test_fields_decoded replicate_numeral)

text \<open>
  Claim C2, at a failing key sequence. The keys \<open>Xabcd\<close>, \<open>Yabcd\<close> are encoded with
  code 0 as \<open>85 58 61 62 63 64\<close> and \<open>e0 00 05\<close>: the loop of \<open>__suffix\<close> compares only
  the last four bytes (\<open>i < len\<close>) and then returns \<open>len = 5\<close>, so the second key is
  written as "prefix 0, suffix 5, nothing between". The decoder returns \<open>Xabcd\<close> twice.
\<close>

theorem field_round_trip_fails:
  "encode_fields 16 64 [bytes_of ''Xabcd'', bytes_of ''Yabcd''] =
     Some (Inr ([0, 0], [0x85, 0x58, 0x61, 0x62, 0x63, 0x64, 0xe0, 0x00, 0x05])) \<and>
   decode_fields 16 256 [0x85, 0x58, 0x61, 0x62, 0x63, 0x64, 0xe0, 0x00, 0x05] 2 =
     Inr [(0, Some (bytes_of ''Xabcd'')), (0, Some (bytes_of ''Xabcd''))]"
  by (simp add: field_encoder_eval field_decoder_eval writer_eval reader_eval)

text \<open>
  Claim C4, at a failing key. After \<open>aaaaaaa\<close>, the key \<open>abaaaaa\<close> has prefix 1 and
  computed suffix 4, and is written in the prefix+suffix form as \<open>e2 01 04 62 61 61\<close>:
  the head declares 7 - 1 - 4 = 2 middle bytes, and three key bytes follow the two delta
  bytes, because \<open>__encode_prefix_suffix\<close> passes \<open>keylen - suffix\<close>, not its
  \<open>length\<close>, to the sink.
\<close>

theorem prefix_suffix_token_is_too_long:
  "field_tokens 16 64 [bytes_of ''aaaaaaa'', bytes_of ''abaaaaa''] =
     Some (Inr [(0, 0x87 # bytes_of ''aaaaaaa''), (0, [0xe2, 0x01, 0x04] @ bytes_of ''baa'')])"
  by (simp add: field_encoder_eval writer_eval)

text \<open>
  With a prefix longer than the suffix the same call reads beyond the key: after
  \<open>aaaaaaaaa\<close>, the key \<open>aaaaabbbb\<close> has prefix 5 and computed suffix 4, and
  \<open>key + 5\<close> with the count \<open>9 - 4\<close> ends one byte after the key.
\<close>

lemma prefix_suffix_reads_past_key:
  "field_tokens 16 64 [bytes_of ''aaaaaaaaa'', bytes_of ''aaaaabbbb''] = Some (Inl OutOfBounds)"
  by (simp add: field_encoder_eval writer_eval)

text \<open>
  Claim C6, at a failing key sequence. With a table of two entries, the third distinct key
  is encoded with code 0: the table stays at two entries, the key is not in it afterwards,
  and \<open>yajbe_field_encoder_add\<close> on the same full table does return \<open>-ENOSPC\<close>, the code
  that \<open>yajbe_field_hencode\<close> drops.
\<close>

theorem full_table_encode_returns_zero:
  "(case encode_keys (yajbe_field_encoder_init_fixed 2) (fresh_writer 64)
           [bytes_of ''a'', bytes_of ''b''] of
      Some (Inr (rs, self, w)) \<Rightarrow>
        rs = [0, 0] \<and> enc_entries_count self = 2 \<and> enc_entries_size self = 2 \<and>
        map_option (map_sum id fst) (yajbe_field_encoder_add self (bytes_of ''c'')) = Some (Inr (- ENOSPC)) \<and>
        (case yajbe_field_encode self w (bytes_of ''c'') of
           Some (Inr (r, self1, w1)) \<Rightarrow>
             r = 0 \<and> enc_entries_count self1 = 2 \<and> yajbe_field_encoder_get self1 (bytes_of ''c'') = - 1
         | _ \<Rightarrow> False)
    | _ \<Rightarrow> False)"
  by (simp add: yajbe_field_encoder_add_def yajbe_field_encoder_get_def field_encoder_eval writer_eval)

section \<open>The indexed form in the field decoder\<close>

text \<open>
  When the head byte read by \<open>yajbe_field_decode\<close> has the top bits 101 and
  \<open>__read_length\<close> yields \<open>index\<close>, the decoder takes \<open>entries[index]\<close> with no
  comparison against the number of entries appended so far. If \<open>index\<close> is below that
  number, the call returns 0 with that entry, which becomes the last field. Otherwise the
  result is no error code: the access is to a slot never assigned or, from
  \<open>entries_size\<close> on, outside the array.
\<close>

lemma indexed_field_lookup_is_unchecked:
  assumes "read_u8 reader = Inr (b, reader1)"
    and "drop_bit 5 (uint b) AND 7 = 5"
    and "read_length reader1 (uint b) = Inr (index, reader2)"
  shows "yajbe_field_decode self reader =
           (if index < dec_entries_count self
            then Inr (0, Some (dec_entries self ! index),
                      self\<lparr>dec_last_field := Some (dec_entries self ! index)\<rparr>, reader2)
            else if index < dec_entries_size self then Inl Uninitialised
            else Inl OutOfBounds)"
  using assms
  by (simp add: yajbe_field_decode_def read_indexed_field_name_def Let_def)

lemma indexed_field_lookup_on_empty_decoder:
  "read_u8 (z_mem_bytes_reader_init [0xa0]) = Inr (0xa0, \<lparr>r_buffer = [0xa0], r_offset = 1\<rparr>) \<and>
   drop_bit 5 (uint (0xa0 :: byte)) AND 7 = 5 \<and>
   read_length \<lparr>r_buffer = [0xa0], r_offset = 1\<rparr> (uint (0xa0 :: byte)) =
     Inr (0, \<lparr>r_buffer = [0xa0], r_offset = 1\<rparr>) \<and>
   yajbe_field_decode (yajbe_field_decoder_init_fixed 16 (replicate 256 0))
     (z_mem_bytes_reader_init [0xa0]) = Inl Uninitialised \<and>
   yajbe_field_decode (yajbe_field_decoder_init_fixed 0 [])
     (z_mem_bytes_reader_init [0xa0]) = Inl OutOfBounds"
proof -
  have a: "read_u8 (z_mem_bytes_reader_init [0xa0]) = Inr (0xa0, \<lparr>r_buffer = [0xa0], r_offset = 1\<rparr>)"
    by (simp add: reader_eval)
  have b: "drop_bit 5 (uint (0xa0 :: byte)) AND 7 = 5"
    by simp
  have c: "read_length \<lparr>r_buffer = [0xa0], r_offset = 1\<rparr> (uint (0xa0 :: byte)) =
     Inr (0, \<lparr>r_buffer = [0xa0], r_offset = 1\<rparr>)"
    by (simp add: read_length_def)
  show ?thesis
    using a b c
      indexed_field_lookup_is_unchecked [OF a b c, of "yajbe_field_decoder_init_fixed 16 (replicate 256 0)"]
      indexed_field_lookup_is_unchecked [OF a b c, of "yajbe_field_decoder_init_fixed 0 []"]
    by (simp add: yajbe_field_decoder_init_fixed_def dec_entries_count_def)
qed

text \<open>
  The same happens on a stream written by the encoder from keys that are UTF-8 text: the
  seven-byte keys \<open>61 c3 a5 c3 a5 c3 a5\<close> and \<open>61 62 c3 a5 c3 a5 63\<close>, then \<open>zzz\<close>.
  The second token, \<open>e2 01 04 62 c3 a5\<close>, declares two middle bytes and carries three;
  the third call of the decoder takes the byte \<open>a5\<close> left over as a head of family 101
  with index 5, when two entries have been appended.
\<close>

lemma encoder_stream_of_text_keys_carries_unassigned_index:
  "encode_fields 16 64
     [[0x61, 0xc3, 0xa5, 0xc3, 0xa5, 0xc3, 0xa5],
      [0x61, 0x62, 0xc3, 0xa5, 0xc3, 0xa5, 0x63],
      bytes_of ''zzz''] =
     Some (Inr ([0, 0, 0],
                [0x87, 0x61, 0xc3, 0xa5, 0xc3, 0xa5, 0xc3, 0xa5,
                 0xe2, 0x01, 0x04, 0x62, 0xc3, 0xa5,
                 0x83, 0x7a, 0x7a, 0x7a])) \<and>
   decode_fields 16 256
     [0x87, 0x61, 0xc3, 0xa5, 0xc3, 0xa5, 0xc3, 0xa5,
      0xe2, 0x01, 0x04, 0x62, 0xc3, 0xa5,
      0x83, 0x7a, 0x7a, 0x7a] 3 = Inl Uninitialised"
  by (simp add: field_encoder_eval field_decoder_eval writer_eval reader_eval)

text \<open>
  Claim C10, at a failing key sequence. The lookup \<open>entries[index]\<close> of the indexed form
  is unchecked, as the claim says; what fails is that the streams produced by the encoder
  keep every index below the number of entries appended so far. The keys
  \<open>61 a5 a5 a5 a5 a5 a5\<close>, \<open>61 62 a5 a5 a5 a5 a5\<close> and \<open>zzz\<close> are encoded, each with
  code 0, as \<open>87 61 a5 a5 a5 a5 a5 a5\<close>, \<open>e2 01 04 62 a5 a5\<close> and \<open>83 7a 7a 7a\<close>: the
  second token declares 7 - 1 - 4 = 2 middle bytes and carries three, since
  \<open>__encode_prefix_suffix\<close> passes \<open>keylen - suffix\<close> to the sink. The decoder returns
  the first two keys; its third call reads the byte \<open>a5\<close> left over as a head of family
  101 with index 5, when two entries have been appended, and takes \<open>entries[5]\<close>: a slot
  never assigned in an array of 16 entries, and a slot outside an array of 2 entries. No
  error code is returned.
\<close>

theorem encoder_stream_carries_unassigned_index:
  "encode_fields 16 64
     [[0x61, 0xa5, 0xa5, 0xa5, 0xa5, 0xa5, 0xa5],
      [0x61, 0x62, 0xa5, 0xa5, 0xa5, 0xa5, 0xa5],
      bytes_of ''zzz''] =
     Some (Inr ([0, 0, 0],
                [0x87, 0x61, 0xa5, 0xa5, 0xa5, 0xa5, 0xa5, 0xa5,
                 0xe2, 0x01, 0x04, 0x62, 0xa5, 0xa5,
                 0x83, 0x7a, 0x7a, 0x7a])) \<and>
   decode_fields 16 256
     [0x87, 0x61, 0xa5, 0xa5, 0xa5, 0xa5, 0xa5, 0xa5,
      0xe2, 0x01, 0x04, 0x62, 0xa5, 0xa5,
      0x83, 0x7a, 0x7a, 0x7a] 2 =
     Inr [(0, Some [0x61, 0xa5, 0xa5, 0xa5, 0xa5, 0xa5, 0xa5]),
          (0, Some [0x61, 0x62, 0xa5, 0xa5, 0xa5, 0xa5, 0xa5])] \<and>
   decode_fields 16 256
     [0x87, 0x61, 0xa5, 0xa5, 0xa5, 0xa5, 0xa5, 0xa5,
      0xe2, 0x01, 0x04, 0x62, 0xa5, 0xa5,
      0x83, 0x7a, 0x7a, 0x7a] 3 = Inl Uninitialised \<and>
   decode_fields 2 256
     [0x87, 0x61, 0xa5, 0xa5, 0xa5, 0xa5, 0xa5, 0xa5,
      0xe2, 0x01, 0x04, 0x62, 0xa5, 0xa5,
      0x83, 0x7a, 0x7a, 0x7a] 3 = Inl OutOfBounds"
  by (simp add: field_encoder_eval field_decoder_eval writer_eval reader_eval)

section \<open>Index assignment in the encoder table\<close>

subsection \<open>First-seen lists\<close>



lemma distinct_first_seen_from: "distinct seen \<Longrightarrow> distinct (first_seen_from seen ks)"
  by (induction ks arbitrary: seen) auto




lemma index_of_less: "k \<in> set xs \<Longrightarrow> index_of xs k < length xs"
  by (induction xs) auto

lemma nth_index_of: "k \<in> set xs \<Longrightarrow> xs ! index_of xs k = k"
  by (induction xs) auto






subsection \<open>Probing\<close>














subsection \<open>The table invariant\<close>











subsection \<open>One call of the field encoder\<close>








subsection \<open>A sequence of calls\<close>











end
